theory Spec2Isabelle
  imports Complex_Main
begin

section \<open>Configuration and the one-dimensional state vectors\<close>

text \<open>
  The C sources select their code paths with preprocessor symbols (\<^verbatim>\<open>MHD\<close>,
  \<^verbatim>\<open>ISOTHERMAL\<close>, \<^verbatim>\<open>NSCALARS\<close>) and read the globals \<^verbatim>\<open>Gamma\<close>,
  \<^verbatim>\<open>Gamma_1\<close>, \<^verbatim>\<open>Iso_csound2\<close> of \<^verbatim>\<open>globals.h\<close>. The macros \<^verbatim>\<open>TINY_NUMBER\<close>
  and \<^verbatim>\<open>nghost\<close> come from \<^verbatim>\<open>defs.h\<close>, which is not part of the sources at hand;
  they are taken as parameters, as is the reconstruction order (exactly one of
  \<^verbatim>\<open>FIRST_ORDER\<close>, \<^verbatim>\<open>SECOND_ORDER\<close>, \<^verbatim>\<open>THIRD_ORDER\<close> is defined). \<^verbatim>\<open>Real\<close> is
  modelled by the type \<^typ>\<open>real\<close> (exact arithmetic).
\<close>

datatype recon_order = FIRST_ORDER | SECOND_ORDER | THIRD_ORDER

record config =
  MHD :: bool
  ISOTHERMAL :: bool
  NSCALARS :: nat
  order :: recon_order
  nghost :: int
  Gamma :: real
  Gamma_1 :: real
  Iso_csound2 :: real
  TINY_NUMBER :: real

text \<open>
  \<^verbatim>\<open>Cons1D\<close>: conserved variables \<^verbatim>\<open>(d,Mx,My,Mz,[E],[By,Bz],[s(n)])\<close>.
  \<^verbatim>\<open>Prim1D\<close>: primitive variables \<^verbatim>\<open>(d,Vx,Vy,Vz,[P],[By,Bz],[r(n)])\<close>.
  The bracketed members exist only in the configurations that use them; the
  functions below never touch a member that the configuration lacks. The
  structures are declared in \<^verbatim>\<open>athena.h\<close>, which is not among the sources; their
  members are taken from the header comments and the uses in \<^verbatim>\<open>convert_var.c\<close>.
  The arrays \<^verbatim>\<open>s[NSCALARS]\<close> and \<^verbatim>\<open>r[NSCALARS]\<close> are lists.
\<close>

record Cons1D =
  d :: real
  Mx :: real
  My :: real
  Mz :: real
  E :: real
  By :: real
  Bz :: real
  s :: "real list"

record Prim1D =
  d :: real
  Vx :: real
  Vy :: real
  Vz :: real
  P :: real
  By :: real
  Bz :: real
  r :: "real list"

text \<open>
  Modelled from the spec: the macro \<^verbatim>\<open>SQR(x)\<close> of \<^verbatim>\<open>defs.h\<close>, which is not among the
  sources; it is the square that the formulas \<open>\<rho>v\<^sup>2/2\<close> and \<open>|B|\<^sup>2/2\<close> of the
  conversion call for.
\<close>

definition SQR :: "real \<Rightarrow> real" where
  "SQR x = x * x"

text \<open>
  Modelled from the spec: the macro \<^verbatim>\<open>MAX(a,b)\<close> of \<^verbatim>\<open>defs.h\<close>, which is not among
  the sources; it is the larger of its arguments, by which the pressure is clamped
  to its floor. It is named \<open>MAX_macro\<close> here, since \<open>MAX\<close> is a binder of HOL.
\<close>

definition MAX_macro :: "real \<Rightarrow> real \<Rightarrow> real" where
  "MAX_macro a b = (if a > b then a else b)"

section \<open>convert_var.c\<close>

text \<open>
  \<^verbatim>\<open>Cons1D_to_Prim1D(pU, pW, pBx)\<close> writes through the pointer \<^verbatim>\<open>pW\<close>: the model
  takes the previous content of \<^verbatim>\<open>*pW\<close> and returns the new one. The passive
  scalar loop \<^verbatim>\<open>for (n=0; n<NSCALARS; n++) pW->r[n] = pU->s[n]*di\<close> is a fold over
  the indices \<open>0, \<dots>, NSCALARS - 1\<close>.
\<close>

definition Cons1D_to_Prim1D :: "config \<Rightarrow> Cons1D \<Rightarrow> Prim1D \<Rightarrow> real \<Rightarrow> Prim1D" where
  "Cons1D_to_Prim1D cfg pU pW pBx =
     (let di = 1.0 / Cons1D.d pU;
          pW = pW\<lparr>Prim1D.d := Cons1D.d pU\<rparr>;
          pW = pW\<lparr>Vx := Mx pU * di\<rparr>;
          pW = pW\<lparr>Vy := My pU * di\<rparr>;
          pW = pW\<lparr>Vz := Mz pU * di\<rparr>;
          pW = (if \<not> ISOTHERMAL cfg then
                  (let pW = pW\<lparr>P := E pU - 0.5 * (SQR (Mx pU) + SQR (My pU) + SQR (Mz pU)) * di\<rparr>;
                       pW = (if MHD cfg
                             then pW\<lparr>P := P pW - 0.5 * (SQR pBx + SQR (Cons1D.By pU) + SQR (Cons1D.Bz pU))\<rparr>
                             else pW);
                       pW = pW\<lparr>P := P pW * Gamma_1 cfg\<rparr>
                   in pW\<lparr>P := MAX_macro (P pW) (TINY_NUMBER cfg)\<rparr>)
                else pW);
          pW = (if MHD cfg
                then pW\<lparr>Prim1D.By := Cons1D.By pU, Prim1D.Bz := Cons1D.Bz pU\<rparr>
                else pW)
      in pW\<lparr>r := fold (\<lambda>n rs. rs[n := s pU ! n * di]) [0..<NSCALARS cfg] (r pW)\<rparr>)"

definition Prim1D_to_Cons1D :: "config \<Rightarrow> Cons1D \<Rightarrow> Prim1D \<Rightarrow> real \<Rightarrow> Cons1D" where
  "Prim1D_to_Cons1D cfg pU pW pBx =
     (let pU = pU\<lparr>Cons1D.d := Prim1D.d pW\<rparr>;
          pU = pU\<lparr>Mx := Prim1D.d pW * Vx pW\<rparr>;
          pU = pU\<lparr>My := Prim1D.d pW * Vy pW\<rparr>;
          pU = pU\<lparr>Mz := Prim1D.d pW * Vz pW\<rparr>;
          pU = (if \<not> ISOTHERMAL cfg then
                  (let pU = pU\<lparr>E := P pW / Gamma_1 cfg
                                    + 0.5 * Prim1D.d pW * (SQR (Vx pW) + SQR (Vy pW) + SQR (Vz pW))\<rparr>
                   in if MHD cfg
                      then pU\<lparr>E := E pU + 0.5 * (SQR pBx + SQR (Prim1D.By pW) + SQR (Prim1D.Bz pW))\<rparr>
                      else pU)
                else pU);
          pU = (if MHD cfg
                then pU\<lparr>Cons1D.By := Prim1D.By pW, Cons1D.Bz := Prim1D.Bz pW\<rparr>
                else pU)
      in pU\<lparr>s := fold (\<lambda>n ss. ss[n := r pW ! n * Prim1D.d pW]) [0..<NSCALARS cfg] (s pU)\<rparr>)"

text \<open>
  The function \<^verbatim>\<open>sqrt\<close> of \<^verbatim>\<open>math.h\<close>: a negative argument is a domain error, for
  which the C function returns a NaN instead of a number. The model returns
  \<open>None\<close> there, and a NaN operand makes every later result a NaN. It is named
  \<open>sqrt_c\<close> here, since \<open>sqrt\<close> is the total real root of HOL.
\<close>

definition sqrt_c :: "real \<Rightarrow> real option" where
  "sqrt_c x = (if x < 0 then None else Some (sqrt x))"

text \<open>
  \<^verbatim>\<open>cfast(U, Bx)\<close>: the fast magnetosonic speed. The local \<^verbatim>\<open>pb\<close> is initialised
  to \<^verbatim>\<open>0.0\<close> and only assigned under \<^verbatim>\<open>MHD\<close>; the pressure \<^verbatim>\<open>p\<close> is computed
  here without the floor that \<^verbatim>\<open>Cons1D_to_Prim1D\<close> applies, so that \<^verbatim>\<open>asq\<close> can be
  negative. The result is \<open>None\<close> when the code returns a NaN.
\<close>

definition cfast :: "config \<Rightarrow> Cons1D \<Rightarrow> real \<Rightarrow> real option" where
  "cfast cfg U Bx =
     (let asq =
            (if ISOTHERMAL cfg then Iso_csound2 cfg
             else (let pb = (if MHD cfg
                             then 0.5 * (SQR Bx + SQR (Cons1D.By U) + SQR (Cons1D.Bz U))
                             else 0.0);
                       p = Gamma_1 cfg
                           * (E U - pb - 0.5 * (SQR (Mx U) + SQR (My U) + SQR (Mz U)) / Cons1D.d U)
                   in Gamma cfg * p / Cons1D.d U))
      in if \<not> MHD cfg then sqrt_c asq
         else (let ctsq = (SQR (Cons1D.By U) + SQR (Cons1D.Bz U)) / Cons1D.d U;
                   casq = SQR Bx / Cons1D.d U;
                   tmp = casq + ctsq - asq
               in case sqrt_c (tmp * tmp + 4.0 * asq * ctsq) of
                    None \<Rightarrow> None
                  | Some rt \<Rightarrow>
                      (let cfsq = 0.5 * ((asq + ctsq + casq) + rt)
                       in sqrt_c cfsq)))"

text \<open>
  The pressure that the conversion and \<^verbatim>\<open>cfast\<close> derive from a conserved state,
  before any floor: \<open>P = (\<gamma> - 1) (E - \<rho>v\<^sup>2/2 - |B|\<^sup>2/2)\<close>, the magnetic term only
  under MHD, with \<open>\<rho>v\<^sup>2 = |M|\<^sup>2/\<rho>\<close>.
\<close>

definition derived_pressure :: "config \<Rightarrow> Cons1D \<Rightarrow> real \<Rightarrow> real" where
  "derived_pressure cfg U Bx =
     Gamma_1 cfg * (E U - ((Mx U)\<^sup>2 + (My U)\<^sup>2 + (Mz U)\<^sup>2) / (2 * Cons1D.d U)
                    - (if MHD cfg then (Bx\<^sup>2 + (Cons1D.By U)\<^sup>2 + (Cons1D.Bz U)\<^sup>2) / 2 else 0))"

text \<open>The squared sound speed: \<open>a\<^sup>2 = \<gamma>P/\<rho>\<close>, or the constant \<open>c\<^sub>s\<^sup>2\<close> when isothermal.\<close>

definition sound_speed_sq :: "config \<Rightarrow> Cons1D \<Rightarrow> real \<Rightarrow> real" where
  "sound_speed_sq cfg U Bx =
     (if ISOTHERMAL cfg then Iso_csound2 cfg
      else Gamma cfg * derived_pressure cfg U Bx / Cons1D.d U)"

text \<open>
  The fast speed as the specification words it, with \<open>4 a\<^sup>2 b\<^sub>\<bottom>\<^sup>2\<close> under the inner
  root: \<open>b\<^sup>2 = Bx\<^sup>2/\<rho>\<close>, \<open>b\<^sub>\<bottom>\<^sup>2 = (By\<^sup>2 + Bz\<^sup>2)/\<rho>\<close>.
\<close>

definition cfast_as_specified :: "config \<Rightarrow> Cons1D \<Rightarrow> real \<Rightarrow> real" where
  "cfast_as_specified cfg U Bx =
     (let a2 = sound_speed_sq cfg U Bx;
          b2 = Bx\<^sup>2 / Cons1D.d U;
          bperp2 = ((Cons1D.By U)\<^sup>2 + (Cons1D.Bz U)\<^sup>2) / Cons1D.d U
      in if MHD cfg
         then sqrt (1/2 * ((a2 + b2 + bperp2) + sqrt ((a2 + b2 + bperp2)\<^sup>2 - 4 * a2 * bperp2)))
         else sqrt a2)"

text \<open>The same with the normal component, \<open>4 a\<^sup>2 b\<^sup>2\<close>, under the inner root.\<close>

definition cfast_normal_form :: "config \<Rightarrow> Cons1D \<Rightarrow> real \<Rightarrow> real" where
  "cfast_normal_form cfg U Bx =
     (let a2 = sound_speed_sq cfg U Bx;
          b2 = Bx\<^sup>2 / Cons1D.d U;
          bperp2 = ((Cons1D.By U)\<^sup>2 + (Cons1D.Bz U)\<^sup>2) / Cons1D.d U
      in if MHD cfg
         then sqrt (1/2 * ((a2 + b2 + bperp2) + sqrt ((a2 + b2 + bperp2)\<^sup>2 - 4 * a2 * b2)))
         else sqrt a2)"

text \<open>
  Two state vectors agree when they are equal on every member that exists in the
  configuration; the scalar arrays have \<^verbatim>\<open>NSCALARS\<close> entries.
\<close>

definition Prim1D_agree :: "config \<Rightarrow> Prim1D \<Rightarrow> Prim1D \<Rightarrow> bool" where
  "Prim1D_agree cfg W W' \<longleftrightarrow>
     Prim1D.d W = Prim1D.d W' \<and> Vx W = Vx W' \<and> Vy W = Vy W' \<and> Vz W = Vz W'
     \<and> (\<not> ISOTHERMAL cfg \<longrightarrow> P W = P W')
     \<and> (MHD cfg \<longrightarrow> Prim1D.By W = Prim1D.By W' \<and> Prim1D.Bz W = Prim1D.Bz W')
     \<and> r W = r W'"

definition Cons1D_agree :: "config \<Rightarrow> Cons1D \<Rightarrow> Cons1D \<Rightarrow> bool" where
  "Cons1D_agree cfg U U' \<longleftrightarrow>
     Cons1D.d U = Cons1D.d U' \<and> Mx U = Mx U' \<and> My U = My U' \<and> Mz U = Mz U'
     \<and> (\<not> ISOTHERMAL cfg \<longrightarrow> E U = E U')
     \<and> (MHD cfg \<longrightarrow> Cons1D.By U = Cons1D.By U' \<and> Cons1D.Bz U = Cons1D.Bz U')
     \<and> s U = s U'"

text \<open>Concrete configurations and states used in the examples below.\<close>

definition cfg_adiabatic_mhd :: config where
  "cfg_adiabatic_mhd =
     \<lparr>MHD = True, ISOTHERMAL = False, NSCALARS = 1, order = SECOND_ORDER, nghost = 4,
      Gamma = 2, Gamma_1 = 1, Iso_csound2 = 1, TINY_NUMBER = 1 / 10 ^ 20\<rparr>"

definition cfg_adiabatic_hydro :: config where
  "cfg_adiabatic_hydro =
     \<lparr>MHD = False, ISOTHERMAL = False, NSCALARS = 1, order = SECOND_ORDER, nghost = 4,
      Gamma = 2, Gamma_1 = 1, Iso_csound2 = 1, TINY_NUMBER = 1 / 10 ^ 20\<rparr>"

definition U_kinetic_excess :: Cons1D where
  "U_kinetic_excess =
     \<lparr>Cons1D.d = 1, Mx = 2, My = 0, Mz = 0, E = 1, Cons1D.By = 0, Cons1D.Bz = 0, s = [0]\<rparr>"

definition U_transverse_field :: Cons1D where
  "U_transverse_field =
     \<lparr>Cons1D.d = 1, Mx = 0, My = 0, Mz = 0, E = 1, Cons1D.By = 1, Cons1D.Bz = 0, s = [0]\<rparr>"

definition W_below_floor :: Prim1D where
  "W_below_floor =
     \<lparr>Prim1D.d = 1, Vx = 0, Vy = 0, Vz = 0, P = 1 / 10 ^ 21, Prim1D.By = 0, Prim1D.Bz = 0, r = [0]\<rparr>"

definition U_below_floor :: Cons1D where
  "U_below_floor =
     \<lparr>Cons1D.d = 1, Mx = 0, My = 0, Mz = 0, E = 1 / 10 ^ 21, Cons1D.By = 0, Cons1D.Bz = 0, s = [0]\<rparr>"

definition W_moving :: Prim1D where
  "W_moving =
     \<lparr>Prim1D.d = 2, Vx = 1, Vy = -1, Vz = 3, P = 5, Prim1D.By = 1, Prim1D.Bz = 2, r = [1/2]\<rparr>"

definition U_moving :: Cons1D where
  "U_moving =
     \<lparr>Cons1D.d = 2, Mx = 2, My = -2, Mz = 6, E = 20, Cons1D.By = 1, Cons1D.Bz = 2, s = [1]\<rparr>"


section \<open>integrate_3d_vl.c\<close>

subsection \<open>Arrays, loops and the grid\<close>

text \<open>
  A three-dimensional C array \<^verbatim>\<open>a[k][j][i]\<close> is a function of its three indices
  (allocation bounds are not modelled); \<open>upd3\<close> is the assignment
  \<^verbatim>\<open>a[k][j][i] = v\<close>. The loop \<^verbatim>\<open>for (i=lo; i<=hi; i++) body\<close> is \<open>for_loop lo hi body\<close>,
  which threads the mutated state through the iterations in order.
\<close>

type_synonym 'a array3 = "int \<Rightarrow> int \<Rightarrow> int \<Rightarrow> 'a"

definition upd3 :: "'a array3 \<Rightarrow> int \<Rightarrow> int \<Rightarrow> int \<Rightarrow> 'a \<Rightarrow> 'a array3" where
  "upd3 a k j i v = a(k := (a k)(j := (a k j)(i := v)))"

function for_loop :: "int \<Rightarrow> int \<Rightarrow> (int \<Rightarrow> 'st \<Rightarrow> 'st) \<Rightarrow> 'st \<Rightarrow> 'st" where
  "for_loop lo hi body st = (if lo \<le> hi then for_loop (lo + 1) hi body (body lo st) else st)"
  by pat_completeness auto
termination
  by (relation "measure (\<lambda>(lo, hi, body, st). nat (hi + 1 - lo))") auto

declare for_loop.simps [simp del]

text \<open>
  The members of \<^verbatim>\<open>Grid\<close> that the modelled code reads or writes (the structure
  is declared in \<^verbatim>\<open>athena.h\<close>, which is not among the sources). The index members
  \<^verbatim>\<open>is, ie, js, je, ks, ke\<close> carry the suffix \<open>_g\<close> (\<open>is\<close> is a keyword).
\<close>

record Grid =
  dt :: real
  dx1 :: real
  dx2 :: real
  dx3 :: real
  is_g :: int
  ie_g :: int
  js_g :: int
  je_g :: int
  ks_g :: int
  ke_g :: int
  B1i :: "real array3"
  B2i :: "real array3"
  B3i :: "real array3"

text \<open>
  The widest loop limits: \<^verbatim>\<open>il = is - nghost\<close>, \<^verbatim>\<open>iu = ie + nghost\<close>, and
  \<^verbatim>\<open>ib = il + n\<close>, \<^verbatim>\<open>it = iu - n\<close> with \<open>n = 1, 2, 3\<close> for first, second and third
  order.
\<close>

definition stencil :: "config \<Rightarrow> int" where
  "stencil cfg = (case order cfg of FIRST_ORDER \<Rightarrow> 1 | SECOND_ORDER \<Rightarrow> 2 | THIRD_ORDER \<Rightarrow> 3)"

definition il :: "config \<Rightarrow> Grid \<Rightarrow> int" where "il cfg pGrid = is_g pGrid - nghost cfg"
definition iu :: "config \<Rightarrow> Grid \<Rightarrow> int" where "iu cfg pGrid = ie_g pGrid + nghost cfg"
definition jl :: "config \<Rightarrow> Grid \<Rightarrow> int" where "jl cfg pGrid = js_g pGrid - nghost cfg"
definition ju :: "config \<Rightarrow> Grid \<Rightarrow> int" where "ju cfg pGrid = je_g pGrid + nghost cfg"
definition kl :: "config \<Rightarrow> Grid \<Rightarrow> int" where "kl cfg pGrid = ks_g pGrid - nghost cfg"
definition ku :: "config \<Rightarrow> Grid \<Rightarrow> int" where "ku cfg pGrid = ke_g pGrid + nghost cfg"

definition ib :: "config \<Rightarrow> Grid \<Rightarrow> int" where "ib cfg pGrid = il cfg pGrid + stencil cfg"
definition it :: "config \<Rightarrow> Grid \<Rightarrow> int" where "it cfg pGrid = iu cfg pGrid - stencil cfg"
definition jb :: "config \<Rightarrow> Grid \<Rightarrow> int" where "jb cfg pGrid = jl cfg pGrid + stencil cfg"
definition jt :: "config \<Rightarrow> Grid \<Rightarrow> int" where "jt cfg pGrid = ju cfg pGrid - stencil cfg"
definition kb :: "config \<Rightarrow> Grid \<Rightarrow> int" where "kb cfg pGrid = kl cfg pGrid + stencil cfg"
definition kt :: "config \<Rightarrow> Grid \<Rightarrow> int" where "kt cfg pGrid = ku cfg pGrid - stencil cfg"

subsection \<open>Step 11: the full-step constrained-transport update\<close>

text \<open>
  The corner EMFs \<^verbatim>\<open>emf1, emf2, emf3\<close> are file-scope arrays that the update only
  reads. The three statements of the innermost loop body, with
  \<^verbatim>\<open>dtodx\<close>\<open>\<alpha>\<close>\<^verbatim>\<open> = pGrid->dt/pGrid->dx\<close>\<open>\<alpha>\<close>:
  \<^verbatim>\<open>
  pGrid->B1i[k][j][i] += dtodx3*(emf2[k+1][j][i] - emf2[k][j][i]) -
                         dtodx2*(emf3[k][j+1][i] - emf3[k][j][i]);
  pGrid->B2i[k][j][i] += dtodx1*(emf3[k][j][i+1] - emf3[k][j][i]) -
                         dtodx3*(emf1[k+1][j][i] - emf1[k][j][i]);
  pGrid->B3i[k][j][i] += dtodx2*(emf1[k][j+1][i] - emf1[k][j][i]) -
                         dtodx1*(emf2[k][j][i+1] - emf2[k][j][i]);
  \<close>
\<close>

record emfs =
  emf1 :: "real array3"
  emf2 :: "real array3"
  emf3 :: "real array3"

definition dtodx1 :: "Grid \<Rightarrow> real" where "dtodx1 pGrid = dt pGrid / dx1 pGrid"
definition dtodx2 :: "Grid \<Rightarrow> real" where "dtodx2 pGrid = dt pGrid / dx2 pGrid"
definition dtodx3 :: "Grid \<Rightarrow> real" where "dtodx3 pGrid = dt pGrid / dx3 pGrid"

definition ct_B1i :: "emfs \<Rightarrow> real \<Rightarrow> real \<Rightarrow> int \<Rightarrow> int \<Rightarrow> int \<Rightarrow> Grid \<Rightarrow> Grid" where
  "ct_B1i e q2 q3 k j i pGrid =
     pGrid\<lparr>B1i := upd3 (B1i pGrid) k j i
        (B1i pGrid k j i + (q3 * (emf2 e (k + 1) j i - emf2 e k j i)
                          - q2 * (emf3 e k (j + 1) i - emf3 e k j i)))\<rparr>"

definition ct_B2i :: "emfs \<Rightarrow> real \<Rightarrow> real \<Rightarrow> int \<Rightarrow> int \<Rightarrow> int \<Rightarrow> Grid \<Rightarrow> Grid" where
  "ct_B2i e q1 q3 k j i pGrid =
     pGrid\<lparr>B2i := upd3 (B2i pGrid) k j i
        (B2i pGrid k j i + (q1 * (emf3 e k j (i + 1) - emf3 e k j i)
                          - q3 * (emf1 e (k + 1) j i - emf1 e k j i)))\<rparr>"

definition ct_B3i :: "emfs \<Rightarrow> real \<Rightarrow> real \<Rightarrow> int \<Rightarrow> int \<Rightarrow> int \<Rightarrow> Grid \<Rightarrow> Grid" where
  "ct_B3i e q1 q2 k j i pGrid =
     pGrid\<lparr>B3i := upd3 (B3i pGrid) k j i
        (B3i pGrid k j i + (q2 * (emf1 e k (j + 1) i - emf1 e k j i)
                          - q1 * (emf2 e k j (i + 1) - emf2 e k j i)))\<rparr>"

text \<open>
  The loop nest of Step 11 (lines 756 to 782): the main window updates all three
  face fields; the \<^verbatim>\<open>B1i\<close> faces at \<^verbatim>\<open>i = it\<close>, the \<^verbatim>\<open>B2i\<close> faces at \<^verbatim>\<open>j = jt\<close> and the
  \<^verbatim>\<open>B3i\<close> faces at \<^verbatim>\<open>k = kt\<close> are updated by the trailing statements and loops.
\<close>

definition step11_CT :: "config \<Rightarrow> emfs \<Rightarrow> Grid \<Rightarrow> Grid" where
  "step11_CT cfg e pGrid =
     (let q1 = dtodx1 pGrid; q2 = dtodx2 pGrid; q3 = dtodx3 pGrid;
          ib = ib cfg pGrid; it = it cfg pGrid;
          jb = jb cfg pGrid; jt = jt cfg pGrid;
          kb = kb cfg pGrid; kt = kt cfg pGrid;
          pGrid =
            for_loop (kb + 1) (kt - 1) (\<lambda>k pGrid.
              let pGrid =
                    for_loop (jb + 1) (jt - 1) (\<lambda>j pGrid.
                      let pGrid =
                            for_loop (ib + 1) (it - 1) (\<lambda>i pGrid.
                              let pGrid = ct_B1i e q2 q3 k j i pGrid;
                                  pGrid = ct_B2i e q1 q3 k j i pGrid
                              in ct_B3i e q1 q2 k j i pGrid) pGrid
                      in ct_B1i e q2 q3 k j it pGrid) pGrid
              in for_loop (ib + 1) (it - 1) (\<lambda>i pGrid. ct_B2i e q1 q3 k jt i pGrid) pGrid) pGrid
      in for_loop (jb + 1) (jt - 1) (\<lambda>j pGrid.
           for_loop (ib + 1) (it - 1) (\<lambda>i pGrid. ct_B3i e q1 q2 kt j i pGrid) pGrid) pGrid)"

text \<open>The increments that the three statements add to a face field.\<close>

definition dB1 :: "emfs \<Rightarrow> real \<Rightarrow> real \<Rightarrow> int \<Rightarrow> int \<Rightarrow> int \<Rightarrow> real" where
  "dB1 e q2 q3 k j i =
     q3 * (emf2 e (k + 1) j i - emf2 e k j i) - q2 * (emf3 e k (j + 1) i - emf3 e k j i)"

definition dB2 :: "emfs \<Rightarrow> real \<Rightarrow> real \<Rightarrow> int \<Rightarrow> int \<Rightarrow> int \<Rightarrow> real" where
  "dB2 e q1 q3 k j i =
     q1 * (emf3 e k j (i + 1) - emf3 e k j i) - q3 * (emf1 e (k + 1) j i - emf1 e k j i)"

definition dB3 :: "emfs \<Rightarrow> real \<Rightarrow> real \<Rightarrow> int \<Rightarrow> int \<Rightarrow> int \<Rightarrow> real" where
  "dB3 e q1 q2 k j i =
     q2 * (emf1 e k (j + 1) i - emf1 e k j i) - q1 * (emf2 e k j (i + 1) - emf2 e k j i)"

text \<open>
  The faces that Step 11 advances, read off the loop limits, and the discrete
  divergence of the face-centred field over the cell \<open>(k, j, i)\<close>.
\<close>

definition advanced_B1i :: "config \<Rightarrow> Grid \<Rightarrow> int \<Rightarrow> int \<Rightarrow> int \<Rightarrow> bool" where
  "advanced_B1i cfg pGrid k j i \<longleftrightarrow>
     kb cfg pGrid + 1 \<le> k \<and> k \<le> kt cfg pGrid - 1 \<and>
     jb cfg pGrid + 1 \<le> j \<and> j \<le> jt cfg pGrid - 1 \<and>
     (ib cfg pGrid + 1 \<le> i \<and> i \<le> it cfg pGrid - 1 \<or> i = it cfg pGrid)"

definition advanced_B2i :: "config \<Rightarrow> Grid \<Rightarrow> int \<Rightarrow> int \<Rightarrow> int \<Rightarrow> bool" where
  "advanced_B2i cfg pGrid k j i \<longleftrightarrow>
     kb cfg pGrid + 1 \<le> k \<and> k \<le> kt cfg pGrid - 1 \<and>
     (jb cfg pGrid + 1 \<le> j \<and> j \<le> jt cfg pGrid - 1 \<or> j = jt cfg pGrid) \<and>
     ib cfg pGrid + 1 \<le> i \<and> i \<le> it cfg pGrid - 1"

definition advanced_B3i :: "config \<Rightarrow> Grid \<Rightarrow> int \<Rightarrow> int \<Rightarrow> int \<Rightarrow> bool" where
  "advanced_B3i cfg pGrid k j i \<longleftrightarrow>
     (kb cfg pGrid + 1 \<le> k \<and> k \<le> kt cfg pGrid - 1 \<or> k = kt cfg pGrid) \<and>
     jb cfg pGrid + 1 \<le> j \<and> j \<le> jt cfg pGrid - 1 \<and>
     ib cfg pGrid + 1 \<le> i \<and> i \<le> it cfg pGrid - 1"

definition six_faces_advanced :: "config \<Rightarrow> Grid \<Rightarrow> int \<Rightarrow> int \<Rightarrow> int \<Rightarrow> bool" where
  "six_faces_advanced cfg pGrid k j i \<longleftrightarrow>
     advanced_B1i cfg pGrid k j i \<and> advanced_B1i cfg pGrid k j (i + 1) \<and>
     advanced_B2i cfg pGrid k j i \<and> advanced_B2i cfg pGrid k (j + 1) i \<and>
     advanced_B3i cfg pGrid k j i \<and> advanced_B3i cfg pGrid (k + 1) j i"

definition divB :: "Grid \<Rightarrow> int \<Rightarrow> int \<Rightarrow> int \<Rightarrow> real" where
  "divB pGrid k j i =
     (B1i pGrid k j (i + 1) - B1i pGrid k j i) / dx1 pGrid
   + (B2i pGrid k (j + 1) i - B2i pGrid k j i) / dx2 pGrid
   + (B3i pGrid (k + 1) j i - B3i pGrid k j i) / dx3 pGrid"


subsection \<open>The corner EMFs\<close>

text \<open>
  The file-scope arrays that the corner integration reads: the face fluxes of the
  three sweeps and the cell-centred reference EMFs. Of a flux only the members
  \<^verbatim>\<open>d\<close>, \<^verbatim>\<open>By\<close> and \<^verbatim>\<open>Bz\<close> are used here
  (\<^verbatim>\<open>x1Flux.By = -EMFZ\<close>, \<^verbatim>\<open>x1Flux.Bz = EMFY\<close>, \<^verbatim>\<open>x2Flux.By = -EMFX\<close>,
  \<^verbatim>\<open>x2Flux.Bz = EMFZ\<close>, \<^verbatim>\<open>x3Flux.By = -EMFY\<close>, \<^verbatim>\<open>x3Flux.Bz = EMFX\<close>).
\<close>

record scratch =
  x1Flux :: "Cons1D array3"
  x2Flux :: "Cons1D array3"
  x3Flux :: "Cons1D array3"
  emf1_cc :: "real array3"
  emf2_cc :: "real array3"
  emf3_cc :: "real array3"

text \<open>
  \<^verbatim>\<open>integrate_emf1_corner\<close>: the locals \<^verbatim>\<open>de1_l3, de1_r3, de1_l2, de1_r2\<close> of the loop
  body, in the order in which the source assigns them, each as a function of the
  corner \<open>(k, j, i)\<close>.
\<close>

definition de1_l3 :: "scratch \<Rightarrow> int \<Rightarrow> int \<Rightarrow> int \<Rightarrow> real" where
  "de1_l3 sc k j i =
     (if Cons1D.d (x2Flux sc (k - 1) j i) > 0.0 then
        Cons1D.Bz (x3Flux sc k (j - 1) i) - emf1_cc sc (k - 1) (j - 1) i
      else if Cons1D.d (x2Flux sc (k - 1) j i) < 0.0 then
        Cons1D.Bz (x3Flux sc k j i) - emf1_cc sc (k - 1) j i
      else
        0.5 * (Cons1D.Bz (x3Flux sc k (j - 1) i) - emf1_cc sc (k - 1) (j - 1) i +
               Cons1D.Bz (x3Flux sc k j i) - emf1_cc sc (k - 1) j i))"

definition de1_r3 :: "scratch \<Rightarrow> int \<Rightarrow> int \<Rightarrow> int \<Rightarrow> real" where
  "de1_r3 sc k j i =
     (if Cons1D.d (x2Flux sc k j i) > 0.0 then
        Cons1D.Bz (x3Flux sc k (j - 1) i) - emf1_cc sc k (j - 1) i
      else if Cons1D.d (x2Flux sc k j i) < 0.0 then
        Cons1D.Bz (x3Flux sc k j i) - emf1_cc sc k j i
      else
        0.5 * (Cons1D.Bz (x3Flux sc k (j - 1) i) - emf1_cc sc k (j - 1) i +
               Cons1D.Bz (x3Flux sc k j i) - emf1_cc sc k j i))"

definition de1_l2 :: "scratch \<Rightarrow> int \<Rightarrow> int \<Rightarrow> int \<Rightarrow> real" where
  "de1_l2 sc k j i =
     (if Cons1D.d (x3Flux sc k (j - 1) i) > 0.0 then
        - Cons1D.By (x2Flux sc (k - 1) j i) - emf1_cc sc (k - 1) (j - 1) i
      else if Cons1D.d (x3Flux sc k (j - 1) i) < 0.0 then
        - Cons1D.By (x2Flux sc k j i) - emf1_cc sc k (j - 1) i
      else
        0.5 * (- Cons1D.By (x2Flux sc (k - 1) j i) - emf1_cc sc (k - 1) (j - 1) i
               - Cons1D.By (x2Flux sc k j i) - emf1_cc sc k (j - 1) i))"

definition de1_r2 :: "scratch \<Rightarrow> int \<Rightarrow> int \<Rightarrow> int \<Rightarrow> real" where
  "de1_r2 sc k j i =
     (if Cons1D.d (x3Flux sc k j i) > 0.0 then
        - Cons1D.By (x2Flux sc (k - 1) j i) - emf1_cc sc (k - 1) j i
      else if Cons1D.d (x3Flux sc k j i) < 0.0 then
        - Cons1D.By (x2Flux sc k j i) - emf1_cc sc k j i
      else
        0.5 * (- Cons1D.By (x2Flux sc (k - 1) j i) - emf1_cc sc (k - 1) j i
               - Cons1D.By (x2Flux sc k j i) - emf1_cc sc k j i))"

definition emf1_corner :: "scratch \<Rightarrow> int \<Rightarrow> int \<Rightarrow> int \<Rightarrow> real" where
  "emf1_corner sc k j i =
     0.25 * (Cons1D.Bz (x3Flux sc k j i) + Cons1D.Bz (x3Flux sc k (j - 1) i)
             - Cons1D.By (x2Flux sc k j i) - Cons1D.By (x2Flux sc (k - 1) j i)
             + de1_l2 sc k j i + de1_r2 sc k j i + de1_l3 sc k j i + de1_r3 sc k j i)"

definition integrate_emf1_corner :: "config \<Rightarrow> Grid \<Rightarrow> scratch \<Rightarrow> emfs \<Rightarrow> emfs" where
  "integrate_emf1_corner cfg pGrid sc e =
     for_loop (kl cfg pGrid + 1) (ku cfg pGrid) (\<lambda>k e.
       for_loop (jl cfg pGrid + 1) (ju cfg pGrid) (\<lambda>j e.
         for_loop (il cfg pGrid + 1) (iu cfg pGrid - 1) (\<lambda>i e.
           e\<lparr>emf1 := upd3 (emf1 e) k j i (emf1_corner sc k j i)\<rparr>) e) e) e"

text \<open>
  \<^verbatim>\<open>integrate_emf2_corner\<close>: \<^verbatim>\<open>de2_l3, de2_r3, de2_l1, de2_r1\<close>. The last operand of
  the zero-flux branch of \<^verbatim>\<open>de2_r1\<close> reads \<^verbatim>\<open>emf2_cc[k-1][j][i]\<close> in the source.
\<close>

definition de2_l3 :: "scratch \<Rightarrow> int \<Rightarrow> int \<Rightarrow> int \<Rightarrow> real" where
  "de2_l3 sc k j i =
     (if Cons1D.d (x1Flux sc (k - 1) j i) > 0.0 then
        - Cons1D.By (x3Flux sc k j (i - 1)) - emf2_cc sc (k - 1) j (i - 1)
      else if Cons1D.d (x1Flux sc (k - 1) j i) < 0.0 then
        - Cons1D.By (x3Flux sc k j i) - emf2_cc sc (k - 1) j i
      else
        0.5 * (- Cons1D.By (x3Flux sc k j (i - 1)) - emf2_cc sc (k - 1) j (i - 1)
               - Cons1D.By (x3Flux sc k j i) - emf2_cc sc (k - 1) j i))"

definition de2_r3 :: "scratch \<Rightarrow> int \<Rightarrow> int \<Rightarrow> int \<Rightarrow> real" where
  "de2_r3 sc k j i =
     (if Cons1D.d (x1Flux sc k j i) > 0.0 then
        - Cons1D.By (x3Flux sc k j (i - 1)) - emf2_cc sc k j (i - 1)
      else if Cons1D.d (x1Flux sc k j i) < 0.0 then
        - Cons1D.By (x3Flux sc k j i) - emf2_cc sc k j i
      else
        0.5 * (- Cons1D.By (x3Flux sc k j (i - 1)) - emf2_cc sc k j (i - 1)
               - Cons1D.By (x3Flux sc k j i) - emf2_cc sc k j i))"

definition de2_l1 :: "scratch \<Rightarrow> int \<Rightarrow> int \<Rightarrow> int \<Rightarrow> real" where
  "de2_l1 sc k j i =
     (if Cons1D.d (x3Flux sc k j (i - 1)) > 0.0 then
        Cons1D.Bz (x1Flux sc (k - 1) j i) - emf2_cc sc (k - 1) j (i - 1)
      else if Cons1D.d (x3Flux sc k j (i - 1)) < 0.0 then
        Cons1D.Bz (x1Flux sc k j i) - emf2_cc sc k j (i - 1)
      else
        0.5 * (Cons1D.Bz (x1Flux sc (k - 1) j i) - emf2_cc sc (k - 1) j (i - 1) +
               Cons1D.Bz (x1Flux sc k j i) - emf2_cc sc k j (i - 1)))"

definition de2_r1 :: "scratch \<Rightarrow> int \<Rightarrow> int \<Rightarrow> int \<Rightarrow> real" where
  "de2_r1 sc k j i =
     (if Cons1D.d (x3Flux sc k j i) > 0.0 then
        Cons1D.Bz (x1Flux sc (k - 1) j i) - emf2_cc sc (k - 1) j i
      else if Cons1D.d (x3Flux sc k j i) < 0.0 then
        Cons1D.Bz (x1Flux sc k j i) - emf2_cc sc k j i
      else
        0.5 * (Cons1D.Bz (x1Flux sc (k - 1) j i) - emf2_cc sc (k - 1) j i +
               Cons1D.Bz (x1Flux sc k j i) - emf2_cc sc (k - 1) j i))"

definition emf2_corner :: "scratch \<Rightarrow> int \<Rightarrow> int \<Rightarrow> int \<Rightarrow> real" where
  "emf2_corner sc k j i =
     0.25 * (Cons1D.Bz (x1Flux sc k j i) + Cons1D.Bz (x1Flux sc (k - 1) j i)
             - Cons1D.By (x3Flux sc k j i) - Cons1D.By (x3Flux sc k j (i - 1))
             + de2_l1 sc k j i + de2_r1 sc k j i + de2_l3 sc k j i + de2_r3 sc k j i)"

definition integrate_emf2_corner :: "config \<Rightarrow> Grid \<Rightarrow> scratch \<Rightarrow> emfs \<Rightarrow> emfs" where
  "integrate_emf2_corner cfg pGrid sc e =
     for_loop (kl cfg pGrid + 1) (ku cfg pGrid) (\<lambda>k e.
       for_loop (jl cfg pGrid + 1) (ju cfg pGrid - 1) (\<lambda>j e.
         for_loop (il cfg pGrid + 1) (iu cfg pGrid) (\<lambda>i e.
           e\<lparr>emf2 := upd3 (emf2 e) k j i (emf2_corner sc k j i)\<rparr>) e) e) e"

text \<open>\<^verbatim>\<open>integrate_emf3_corner\<close>: \<^verbatim>\<open>de3_l2, de3_r2, de3_l1, de3_r1\<close>.\<close>

definition de3_l2 :: "scratch \<Rightarrow> int \<Rightarrow> int \<Rightarrow> int \<Rightarrow> real" where
  "de3_l2 sc k j i =
     (if Cons1D.d (x1Flux sc k (j - 1) i) > 0.0 then
        Cons1D.Bz (x2Flux sc k j (i - 1)) - emf3_cc sc k (j - 1) (i - 1)
      else if Cons1D.d (x1Flux sc k (j - 1) i) < 0.0 then
        Cons1D.Bz (x2Flux sc k j i) - emf3_cc sc k (j - 1) i
      else
        0.5 * (Cons1D.Bz (x2Flux sc k j (i - 1)) - emf3_cc sc k (j - 1) (i - 1) +
               Cons1D.Bz (x2Flux sc k j i) - emf3_cc sc k (j - 1) i))"

definition de3_r2 :: "scratch \<Rightarrow> int \<Rightarrow> int \<Rightarrow> int \<Rightarrow> real" where
  "de3_r2 sc k j i =
     (if Cons1D.d (x1Flux sc k j i) > 0.0 then
        Cons1D.Bz (x2Flux sc k j (i - 1)) - emf3_cc sc k j (i - 1)
      else if Cons1D.d (x1Flux sc k j i) < 0.0 then
        Cons1D.Bz (x2Flux sc k j i) - emf3_cc sc k j i
      else
        0.5 * (Cons1D.Bz (x2Flux sc k j (i - 1)) - emf3_cc sc k j (i - 1) +
               Cons1D.Bz (x2Flux sc k j i) - emf3_cc sc k j i))"

definition de3_l1 :: "scratch \<Rightarrow> int \<Rightarrow> int \<Rightarrow> int \<Rightarrow> real" where
  "de3_l1 sc k j i =
     (if Cons1D.d (x2Flux sc k j (i - 1)) > 0.0 then
        - Cons1D.By (x1Flux sc k (j - 1) i) - emf3_cc sc k (j - 1) (i - 1)
      else if Cons1D.d (x2Flux sc k j (i - 1)) < 0.0 then
        - Cons1D.By (x1Flux sc k j i) - emf3_cc sc k j (i - 1)
      else
        0.5 * (- Cons1D.By (x1Flux sc k (j - 1) i) - emf3_cc sc k (j - 1) (i - 1)
               - Cons1D.By (x1Flux sc k j i) - emf3_cc sc k j (i - 1)))"

definition de3_r1 :: "scratch \<Rightarrow> int \<Rightarrow> int \<Rightarrow> int \<Rightarrow> real" where
  "de3_r1 sc k j i =
     (if Cons1D.d (x2Flux sc k j i) > 0.0 then
        - Cons1D.By (x1Flux sc k (j - 1) i) - emf3_cc sc k (j - 1) i
      else if Cons1D.d (x2Flux sc k j i) < 0.0 then
        - Cons1D.By (x1Flux sc k j i) - emf3_cc sc k j i
      else
        0.5 * (- Cons1D.By (x1Flux sc k (j - 1) i) - emf3_cc sc k (j - 1) i
               - Cons1D.By (x1Flux sc k j i) - emf3_cc sc k j i))"

definition emf3_corner :: "scratch \<Rightarrow> int \<Rightarrow> int \<Rightarrow> int \<Rightarrow> real" where
  "emf3_corner sc k j i =
     0.25 * (Cons1D.Bz (x2Flux sc k j (i - 1)) + Cons1D.Bz (x2Flux sc k j i)
             - Cons1D.By (x1Flux sc k (j - 1) i) - Cons1D.By (x1Flux sc k j i)
             + de3_l1 sc k j i + de3_r1 sc k j i + de3_l2 sc k j i + de3_r2 sc k j i)"

definition integrate_emf3_corner :: "config \<Rightarrow> Grid \<Rightarrow> scratch \<Rightarrow> emfs \<Rightarrow> emfs" where
  "integrate_emf3_corner cfg pGrid sc e =
     for_loop (kl cfg pGrid + 1) (ku cfg pGrid - 1) (\<lambda>k e.
       for_loop (jl cfg pGrid + 1) (ju cfg pGrid) (\<lambda>j e.
         for_loop (il cfg pGrid + 1) (iu cfg pGrid) (\<lambda>i e.
           e\<lparr>emf3 := upd3 (emf3 e) k j i (emf3_corner sc k j i)\<rparr>) e) e) e"

text \<open>
  The selection rule as the specification words it: by the sign of the mass flux
  \<open>Fd\<close>, the upwind difference, the downwind difference, or their arithmetic
  average.
\<close>

definition upwind_choice :: "real \<Rightarrow> real \<Rightarrow> real \<Rightarrow> real" where
  "upwind_choice Fd upwind downwind =
     (if Fd > 0 then upwind else if Fd < 0 then downwind else (upwind + downwind) / 2)"

text \<open>
  A shear flow along \<open>x\<^sub>1\<close> whose speed grows with \<open>x\<^sub>3\<close>, in a uniform field along
  \<open>x\<^sub>3\<close>: \<open>\<rho> = 1\<close>, \<open>v = (k, 0, 0)\<close>, \<open>B = (0, 0, 1)\<close> in the cells of layer \<open>k\<close>. The mass
  flux through every \<open>x\<^sub>3\<close> face vanishes, \<^verbatim>\<open>emf2_cc\<close> is \<open>k\<close>, the \<open>x\<^sub>1\<close> faces carry
  \<^verbatim>\<open>d = k\<close> and \<^verbatim>\<open>Bz = k\<close>, and the \<open>x\<^sub>3\<close> face between the layers \<open>k - 1\<close> and \<open>k\<close>
  carries \<^verbatim>\<open>By = -(k - 1/2)\<close>.
\<close>

definition zero_flux :: Cons1D where
  "zero_flux = \<lparr>Cons1D.d = 0, Mx = 0, My = 0, Mz = 0, E = 0, Cons1D.By = 0, Cons1D.Bz = 0, s = []\<rparr>"

definition sc_shear :: scratch where
  "sc_shear =
     \<lparr>x1Flux = (\<lambda>k j i. zero_flux\<lparr>Cons1D.d := real_of_int k, Cons1D.Bz := real_of_int k\<rparr>),
      x2Flux = (\<lambda>k j i. zero_flux),
      x3Flux = (\<lambda>k j i. zero_flux\<lparr>Cons1D.By := - (real_of_int k - 1/2)\<rparr>),
      emf1_cc = (\<lambda>k j i. 0),
      emf2_cc = (\<lambda>k j i. real_of_int k),
      emf3_cc = (\<lambda>k j i. 0)\<rparr>"

text \<open>
  A block of \<open>4\<^sup>3\<close> active cells with four ghost zones, carrying a face field of
  zero discrete divergence, and sample corner EMFs.
\<close>

definition grid_block :: Grid where
  "grid_block =
     \<lparr>dt = 1/10, dx1 = 1/2, dx2 = 1/4, dx3 = 1,
      is_g = 4, ie_g = 7, js_g = 4, je_g = 7, ks_g = 4, ke_g = 7,
      B1i = (\<lambda>k j i. real_of_int i), B2i = (\<lambda>k j i. - real_of_int j),
      B3i = (\<lambda>k j i. 2 * real_of_int k)\<rparr>"

definition emfs_sample :: emfs where
  "emfs_sample =
     \<lparr>emf1 = (\<lambda>k j i. real_of_int (k * j)), emf2 = (\<lambda>k j i. real_of_int (i * i)),
      emf3 = (\<lambda>k j i. real_of_int (i + j * k))\<rparr>"


section \<open>Properties of convert_var.c\<close>

subsection \<open>The passive-scalar loop\<close>

lemma fold_list_update_length:
  "length (fold (\<lambda>n rs. rs[n := g n]) [0..<m] rs) = length rs"
  by (induction m) simp_all

lemma fold_list_update_nth:
  "n < length rs \<Longrightarrow>
   fold (\<lambda>n rs. rs[n := g n]) [0..<m] rs ! n = (if n < m then g n else rs ! n)"
  by (induction m) (auto simp: nth_list_update fold_list_update_length less_Suc_eq)

lemma scalar_loop:
  fixes c :: real
  assumes "length rs = N" "length ss = N"
  shows "fold (\<lambda>n rs. rs[n := ss ! n * c]) [0..<N] rs = map (\<lambda>x. x * c) ss"
  using assms
  by (intro nth_equalityI) (simp_all add: fold_list_update_length fold_list_update_nth)

lemma scalar_loop_div:
  fixes c :: real
  assumes "length rs = N" "length ss = N"
  shows "fold (\<lambda>n rs. rs[n := ss ! n / c]) [0..<N] rs = map (\<lambda>x. x / c) ss"
  using assms
  by (intro nth_equalityI) (simp_all add: fold_list_update_length fold_list_update_nth)

subsection \<open>The fast magnetosonic speed\<close>

lemma inner_root_identity:
  fixes asq ctsq casq :: real
  shows "(casq + ctsq - asq) * (casq + ctsq - asq) + 4 * asq * ctsq
         = (asq + casq + ctsq)\<^sup>2 - 4 * asq * casq"
  by (simp add: power2_eq_square algebra_simps)

lemma cfast_asq:
  "0 < Cons1D.d U \<Longrightarrow>
   (if ISOTHERMAL cfg then Iso_csound2 cfg
    else Gamma cfg * (Gamma_1 cfg * (E U - (if MHD cfg then 0.5 * (SQR Bx + SQR (Cons1D.By U) + SQR (Cons1D.Bz U)) else 0.0)
           - 0.5 * (SQR (Mx U) + SQR (My U) + SQR (Mz U)) / Cons1D.d U)) / Cons1D.d U)
   = sound_speed_sq cfg U Bx"
  by (simp add: sound_speed_sq_def derived_pressure_def SQR_def power2_eq_square field_simps)

lemma cfast_unfold:
  assumes "0 < Cons1D.d U"
  shows "cfast cfg U Bx =
     (if \<not> MHD cfg then sqrt_c (sound_speed_sq cfg U Bx)
      else case sqrt_c ((SQR Bx / Cons1D.d U + (SQR (Cons1D.By U) + SQR (Cons1D.Bz U)) / Cons1D.d U
                           - sound_speed_sq cfg U Bx)
                        * (SQR Bx / Cons1D.d U + (SQR (Cons1D.By U) + SQR (Cons1D.Bz U)) / Cons1D.d U
                           - sound_speed_sq cfg U Bx)
                        + 4.0 * sound_speed_sq cfg U Bx
                          * ((SQR (Cons1D.By U) + SQR (Cons1D.Bz U)) / Cons1D.d U)) of
             None \<Rightarrow> None
           | Some rt \<Rightarrow>
               sqrt_c (0.5 * ((sound_speed_sq cfg U Bx
                               + (SQR (Cons1D.By U) + SQR (Cons1D.Bz U)) / Cons1D.d U
                               + SQR Bx / Cons1D.d U) + rt)))"
  unfolding cfast_def Let_def cfast_asq[OF assms] by (rule refl)

text \<open>
  Under MHD neither root has a negative argument, whatever the sign of \<open>a\<^sup>2\<close>:
  with \<open>b\<^sup>2 \<ge> 0\<close> and \<open>b\<^sub>\<bottom>\<^sup>2 \<ge> 0\<close> the inner argument is
  \<open>(b\<^sup>2 + b\<^sub>\<bottom>\<^sup>2 - a\<^sup>2)\<^sup>2 + 4 a\<^sup>2 b\<^sub>\<bottom>\<^sup>2 = (a\<^sup>2 + b\<^sup>2 + b\<^sub>\<bottom>\<^sup>2)\<^sup>2 - 4 a\<^sup>2 b\<^sup>2\<close>, and the inner
  root is at least \<open>- (a\<^sup>2 + b\<^sup>2 + b\<^sub>\<bottom>\<^sup>2)\<close>.
\<close>

lemma inner_root_arg_nonneg:
  fixes a b c :: real
  assumes "0 \<le> b" "0 \<le> c"
  shows "0 \<le> (b + c - a) * (b + c - a) + 4 * a * c"
proof (cases "0 \<le> a")
  case True
  then have "0 \<le> 4 * a * c"
    using assms by simp
  moreover have "0 \<le> (b + c - a) * (b + c - a)"
    by simp
  ultimately show ?thesis by linarith
next
  case False
  then have "a * b \<le> 0"
    using assms by (simp add: mult_nonpos_nonneg)
  then have "0 \<le> (a + b + c)\<^sup>2 - 4 * a * b"
    using zero_le_power2[of "a + b + c"] by linarith
  then show ?thesis
    by (simp only: inner_root_identity)
qed

lemma outer_root_arg_nonneg:
  fixes a b c :: real
  assumes "0 \<le> b" "0 \<le> c"
  shows "0 \<le> 1/2 * ((a + c + b) + sqrt ((b + c - a) * (b + c - a) + 4 * a * c))"
proof -
  let ?i = "(b + c - a) * (b + c - a) + 4 * a * c"
  have root: "0 \<le> sqrt ?i"
    using inner_root_arg_nonneg[OF assms, of a] by simp
  have "- (a + c + b) \<le> sqrt ?i"
  proof (cases "0 \<le> a")
    case True
    then have "- (a + c + b) \<le> 0"
      using assms by simp
    then show ?thesis
      using root by linarith
  next
    case False
    then have "a * b \<le> 0"
      using assms by (simp add: mult_nonpos_nonneg)
    then have "(- (a + c + b))\<^sup>2 \<le> (a + b + c)\<^sup>2 - 4 * a * b"
      by (simp add: power2_eq_square algebra_simps)
    then have "(- (a + c + b))\<^sup>2 \<le> ?i"
      by (simp only: inner_root_identity)
    then show ?thesis
      by (rule real_le_rsqrt)
  qed
  then show ?thesis by simp
qed

lemma mhd_roots:
  fixes a b c :: real
  assumes "0 \<le> b" "0 \<le> c"
  shows "(case sqrt_c ((b + c - a) * (b + c - a) + 4.0 * a * c) of
            None \<Rightarrow> None
          | Some rt \<Rightarrow> sqrt_c (0.5 * ((a + c + b) + rt)))
         = Some (sqrt (1/2 * ((a + b + c) + sqrt ((a + b + c)\<^sup>2 - 4 * a * b))))"
proof -
  let ?i = "(b + c - a) * (b + c - a) + 4 * a * c"
  have num: "(4.0::real) = 4" "(0.5::real) = 1/2"
    by simp_all
  have inner: "sqrt_c ?i = Some (sqrt ?i)"
    using inner_root_arg_nonneg[OF assms, of a] by (simp add: sqrt_c_def)
  have outer: "sqrt_c (1/2 * ((a + c + b) + sqrt ?i)) = Some (sqrt (1/2 * ((a + c + b) + sqrt ?i)))"
    using outer_root_arg_nonneg[OF assms, of a] by (simp add: sqrt_c_def)
  have order: "a + c + b = a + b + c"
    by simp
  show ?thesis
    unfolding num inner option.case outer
    by (simp only: inner_root_identity order)
qed

text \<open>
  Without MHD a negative \<open>a\<^sup>2\<close> is a domain error of the root: \<^verbatim>\<open>cfast\<close> returns a
  NaN, as for the state \<open>\<rho> = 1\<close>, \<open>M = (2, 0, 0)\<close>, \<open>E = 1\<close> with \<open>\<gamma> = 2\<close>, whose
  kinetic energy exceeds the total energy (\<open>a\<^sup>2 = -2\<close>).
\<close>

lemma cfast_hydro_negative:
  assumes "0 < Cons1D.d U" and "\<not> MHD cfg" and "sound_speed_sq cfg U Bx < 0"
  shows "cfast cfg U Bx = None"
  using assms(2,3) by (simp add: cfast_unfold[OF assms(1)] sqrt_c_def)

lemma cfast_at_kinetic_excess:
  "sound_speed_sq cfg_adiabatic_hydro U_kinetic_excess 0 = - 2"
  "cfast cfg_adiabatic_hydro U_kinetic_excess 0 = None"
  by (simp_all add: cfast_def sqrt_c_def sound_speed_sq_def derived_pressure_def
      cfg_adiabatic_hydro_def U_kinetic_excess_def SQR_def Let_def)

text \<open>
  Claim C2, with the term under the inner root as the code has it. For every
  conserved state \<open>U\<close> with \<open>d > 0\<close> and every interface field \<open>Bx\<close>, \<^verbatim>\<open>cfast\<close> returns,
  under MHD, \<open>\<surd>(1/2 [(a\<^sup>2 + b\<^sup>2 + b\<^sub>\<bottom>\<^sup>2) + \<surd>((a\<^sup>2 + b\<^sup>2 + b\<^sub>\<bottom>\<^sup>2)\<^sup>2 - 4 a\<^sup>2 b\<^sup>2)])\<close> with
  \<open>b\<^sup>2 = Bx\<^sup>2/\<rho>\<close> and \<open>b\<^sub>\<bottom>\<^sup>2 = (By\<^sup>2 + Bz\<^sup>2)/\<rho>\<close>; without MHD it returns \<open>\<surd>(a\<^sup>2)\<close>,
  provided that \<open>a\<^sup>2 \<ge> 0\<close>. Here \<open>a\<^sup>2 = \<gamma>P/\<rho>\<close> with the pressure
  \<open>P = (\<gamma> - 1)(E - |M|\<^sup>2/(2\<rho>) - |B|\<^sup>2/2)\<close> taken without floor (the magnetic term
  only under MHD), and \<open>a\<^sup>2\<close> is the constant \<^verbatim>\<open>Iso_csound2\<close> in the isothermal
  case. In each case the result is a number and not a NaN.
\<close>

theorem cfast_formula:
  assumes "0 < Cons1D.d U"
    and "\<not> MHD cfg \<longrightarrow> 0 \<le> sound_speed_sq cfg U Bx"
  shows "cfast cfg U Bx = Some (cfast_normal_form cfg U Bx)"
proof (cases "MHD cfg")
  case False
  then have "0 \<le> sound_speed_sq cfg U Bx"
    using assms(2) by simp
  then show ?thesis
    using False by (simp add: cfast_unfold[OF assms(1)] cfast_normal_form_def Let_def sqrt_c_def)
next
  case True
  let ?a = "sound_speed_sq cfg U Bx"
  let ?b = "SQR Bx / Cons1D.d U"
  let ?c = "(SQR (Cons1D.By U) + SQR (Cons1D.Bz U)) / Cons1D.d U"
  have b: "0 \<le> ?b" and c: "0 \<le> ?c"
    using assms(1) by (simp_all add: SQR_def)
  have "cfast cfg U Bx
      = (case sqrt_c ((?b + ?c - ?a) * (?b + ?c - ?a) + 4.0 * ?a * ?c) of
           None \<Rightarrow> None
         | Some rt \<Rightarrow> sqrt_c (0.5 * ((?a + ?c + ?b) + rt)))"
    using True by (simp only: cfast_unfold[OF assms(1)] not_True_eq_False if_False)
  also have "\<dots> = Some (sqrt (1/2 * ((?a + ?b + ?c) + sqrt ((?a + ?b + ?c)\<^sup>2 - 4 * ?a * ?b))))"
    by (rule mhd_roots[OF b c])
  also have "\<dots> = Some (cfast_normal_form cfg U Bx)"
    using True by (simp add: cfast_normal_form_def Let_def SQR_def power2_eq_square)
  finally show ?thesis .
qed

text \<open>
  The formula at a state at rest with a purely transverse field under MHD, and at
  a moving state of positive pressure without MHD.
\<close>

theorem cfast_formula_witness:
  "0 < Cons1D.d U_transverse_field \<and> MHD cfg_adiabatic_mhd
   \<and> cfast cfg_adiabatic_mhd U_transverse_field 0
       = Some (cfast_normal_form cfg_adiabatic_mhd U_transverse_field 0)
   \<and> 0 < Cons1D.d U_moving \<and> MHD cfg_adiabatic_hydro = False
   \<and> 0 \<le> sound_speed_sq cfg_adiabatic_hydro U_moving 1
   \<and> cfast cfg_adiabatic_hydro U_moving 1
       = Some (cfast_normal_form cfg_adiabatic_hydro U_moving 1)"
proof -
  have pos: "0 < Cons1D.d U_transverse_field"
    by (simp add: U_transverse_field_def)
  have mhd: "MHD cfg_adiabatic_mhd"
    by (simp add: cfg_adiabatic_mhd_def)
  have pos': "0 < Cons1D.d U_moving"
    by (simp add: U_moving_def)
  have hydro: "MHD cfg_adiabatic_hydro = False"
    by (simp add: cfg_adiabatic_hydro_def)
  have asq: "0 \<le> sound_speed_sq cfg_adiabatic_hydro U_moving 1"
    by (simp add: sound_speed_sq_def derived_pressure_def cfg_adiabatic_hydro_def U_moving_def)
  show ?thesis
    using pos mhd pos' hydro asq
      cfast_formula[OF pos, of cfg_adiabatic_mhd 0]
      cfast_formula[OF pos', of cfg_adiabatic_hydro 1]
    by simp
qed

text \<open>
  At the state at rest (\<open>\<rho> = 1\<close>, \<open>P = 1/2\<close>, \<open>\<gamma> = 2\<close>, so \<open>a\<^sup>2 = 1\<close>; \<open>Bx = 0\<close>, \<open>By = 1\<close>,
  so \<open>b\<^sup>2 = 0\<close> and \<open>b\<^sub>\<bottom>\<^sup>2 = 1\<close>) the code returns \<open>\<surd>2\<close>, while the formula with
  \<open>4 a\<^sup>2 b\<^sub>\<bottom>\<^sup>2\<close> under the inner root gives \<open>1\<close>.
\<close>

lemma cfast_at_transverse_field:
  "cfast cfg_adiabatic_mhd U_transverse_field 0 = Some (sqrt 2)"
  by (simp add: cfast_def sqrt_c_def cfg_adiabatic_mhd_def U_transverse_field_def SQR_def Let_def)

lemma cfast_as_specified_at_transverse_field:
  "cfast_as_specified cfg_adiabatic_mhd U_transverse_field 0 = 1"
  by (simp add: cfast_as_specified_def sound_speed_sq_def derived_pressure_def
      cfg_adiabatic_mhd_def U_transverse_field_def Let_def)

text \<open>
  Claim C2 as it is worded fails there: the value of \<^verbatim>\<open>cfast\<close> is not the one of
  the formula with \<open>4 a\<^sup>2 b\<^sub>\<bottom>\<^sup>2\<close>.
\<close>

theorem cfast_as_specified_counterexample:
  "0 < Cons1D.d U_transverse_field
   \<and> cfast cfg_adiabatic_mhd U_transverse_field 0 = Some (sqrt 2)
   \<and> cfast_as_specified cfg_adiabatic_mhd U_transverse_field 0 = 1
   \<and> cfast cfg_adiabatic_mhd U_transverse_field 0
       \<noteq> Some (cfast_as_specified cfg_adiabatic_mhd U_transverse_field 0)"
proof -
  have "0 < Cons1D.d U_transverse_field"
    by (simp add: U_transverse_field_def)
  moreover have "cfast cfg_adiabatic_mhd U_transverse_field 0
       \<noteq> Some (cfast_as_specified cfg_adiabatic_mhd U_transverse_field 0)"
    by (simp add: cfast_at_transverse_field cfast_as_specified_at_transverse_field)
  ultimately show ?thesis
    by (simp add: cfast_at_transverse_field cfast_as_specified_at_transverse_field)
qed


subsection \<open>Conversion between conserved and primitive variables\<close>

lemma MAX_macro_floor: "b \<le> a \<Longrightarrow> MAX_macro a b = a"
  by (simp add: MAX_macro_def)

lemma Prim1D_to_Cons1D_members:
  assumes "length (s pU) = NSCALARS cfg" "length (r pW) = NSCALARS cfg"
  shows "Cons1D.d (Prim1D_to_Cons1D cfg pU pW Bx) = Prim1D.d pW"
    and "Mx (Prim1D_to_Cons1D cfg pU pW Bx) = Prim1D.d pW * Vx pW"
    and "My (Prim1D_to_Cons1D cfg pU pW Bx) = Prim1D.d pW * Vy pW"
    and "Mz (Prim1D_to_Cons1D cfg pU pW Bx) = Prim1D.d pW * Vz pW"
    and "\<not> ISOTHERMAL cfg \<Longrightarrow> E (Prim1D_to_Cons1D cfg pU pW Bx)
           = P pW / Gamma_1 cfg + Prim1D.d pW * ((Vx pW)\<^sup>2 + (Vy pW)\<^sup>2 + (Vz pW)\<^sup>2) / 2
             + (if MHD cfg then (Bx\<^sup>2 + (Prim1D.By pW)\<^sup>2 + (Prim1D.Bz pW)\<^sup>2) / 2 else 0)"
    and "MHD cfg \<Longrightarrow> Cons1D.By (Prim1D_to_Cons1D cfg pU pW Bx) = Prim1D.By pW"
    and "MHD cfg \<Longrightarrow> Cons1D.Bz (Prim1D_to_Cons1D cfg pU pW Bx) = Prim1D.Bz pW"
    and "s (Prim1D_to_Cons1D cfg pU pW Bx) = map (\<lambda>x. x * Prim1D.d pW) (r pW)"
  using assms
  by (simp_all add: Prim1D_to_Cons1D_def Let_def scalar_loop SQR_def power2_eq_square)

lemma Cons1D_to_Prim1D_members:
  assumes "length (s pU) = NSCALARS cfg" "length (r pW) = NSCALARS cfg"
  shows "Prim1D.d (Cons1D_to_Prim1D cfg pU pW Bx) = Cons1D.d pU"
    and "Vx (Cons1D_to_Prim1D cfg pU pW Bx) = Mx pU / Cons1D.d pU"
    and "Vy (Cons1D_to_Prim1D cfg pU pW Bx) = My pU / Cons1D.d pU"
    and "Vz (Cons1D_to_Prim1D cfg pU pW Bx) = Mz pU / Cons1D.d pU"
    and "\<not> ISOTHERMAL cfg \<Longrightarrow> 0 < Cons1D.d pU \<Longrightarrow> P (Cons1D_to_Prim1D cfg pU pW Bx)
           = MAX_macro (derived_pressure cfg pU Bx) (TINY_NUMBER cfg)"
    and "MHD cfg \<Longrightarrow> Prim1D.By (Cons1D_to_Prim1D cfg pU pW Bx) = Cons1D.By pU"
    and "MHD cfg \<Longrightarrow> Prim1D.Bz (Cons1D_to_Prim1D cfg pU pW Bx) = Cons1D.Bz pU"
    and "r (Cons1D_to_Prim1D cfg pU pW Bx) = map (\<lambda>x. x / Cons1D.d pU) (s pU)"
  using assms
  by (simp_all add: Cons1D_to_Prim1D_def Let_def scalar_loop_div SQR_def power2_eq_square
      derived_pressure_def field_simps)

lemma prim_roundtrip:
  assumes G: "Gamma_1 cfg \<noteq> 0"
    and len: "length (r W) = NSCALARS cfg" "length (s pU0) = NSCALARS cfg"
      "length (r pW0) = NSCALARS cfg"
    and d: "0 < Prim1D.d W" and p: "TINY_NUMBER cfg \<le> P W"
  shows "Prim1D_agree cfg (Cons1D_to_Prim1D cfg (Prim1D_to_Cons1D cfg pU0 W Bx) pW0 Bx) W"
proof -
  let ?U = "Prim1D_to_Cons1D cfg pU0 W Bx"
  note U = Prim1D_to_Cons1D_members[OF len(2) len(1), of Bx]
  have lenU: "length (s ?U) = NSCALARS cfg"
    by (simp add: U(8) len)
  note W' = Cons1D_to_Prim1D_members[OF lenU len(3), of Bx]
  have dU: "0 < Cons1D.d ?U"
    using d by (simp add: U(1))
  have press: "derived_pressure cfg ?U Bx = P W" if "\<not> ISOTHERMAL cfg"
    using d G that by (simp add: derived_pressure_def U power2_eq_square field_simps)
  have "P (Cons1D_to_Prim1D cfg ?U pW0 Bx) = P W" if "\<not> ISOTHERMAL cfg"
    using that p by (simp add: W'(5)[OF that dU] press MAX_macro_floor)
  moreover have "r (Cons1D_to_Prim1D cfg ?U pW0 Bx) = r W"
    using d by (simp add: W'(8) U(8) U(1) o_def)
  ultimately show ?thesis
    using d by (simp add: Prim1D_agree_def W'(1-4) W'(6,7) U(1-4) U(6,7))
qed

lemma cons_roundtrip:
  assumes G: "Gamma_1 cfg \<noteq> 0"
    and len: "length (s U) = NSCALARS cfg" "length (s pU0) = NSCALARS cfg"
      "length (r pW0) = NSCALARS cfg"
    and d: "0 < Cons1D.d U" and p: "TINY_NUMBER cfg \<le> derived_pressure cfg U Bx"
  shows "Cons1D_agree cfg (Prim1D_to_Cons1D cfg pU0 (Cons1D_to_Prim1D cfg U pW0 Bx) Bx) U"
proof -
  let ?W = "Cons1D_to_Prim1D cfg U pW0 Bx"
  note W = Cons1D_to_Prim1D_members[OF len(1) len(3), of Bx]
  have lenW: "length (r ?W) = NSCALARS cfg"
    by (simp add: W(8) len)
  note U' = Prim1D_to_Cons1D_members[OF len(2) lenW, of Bx]
  have PW: "P ?W = derived_pressure cfg U Bx" if "\<not> ISOTHERMAL cfg"
    using p by (simp add: W(5)[OF that d] MAX_macro_floor)
  have "E (Prim1D_to_Cons1D cfg pU0 ?W Bx) = E U" if "\<not> ISOTHERMAL cfg"
    using d G that
    by (simp add: U'(5)[OF that] PW[OF that] W(1-4) W(6,7) derived_pressure_def
        power2_eq_square field_simps)
  moreover have "s (Prim1D_to_Cons1D cfg pU0 ?W Bx) = s U"
    using d by (simp add: U'(8) W(8) W(1) o_def)
  ultimately show ?thesis
    using d by (simp add: Cons1D_agree_def U'(1-4) U'(6,7) W(1-4) W(6,7))
qed

text \<open>
  Claim C4, with the pressure floor taken into account. Let \<open>\<gamma> - 1 \<noteq> 0\<close> and let
  every scalar array have \<^verbatim>\<open>NSCALARS\<close> entries. For every primitive state \<open>W\<close> with
  \<open>d > 0\<close> and \<open>P \<ge> TINY_NUMBER\<close> (and any \<open>Bx\<close>), \<^verbatim>\<open>Cons1D_to_Prim1D\<close> applied to the
  result of \<^verbatim>\<open>Prim1D_to_Cons1D\<close> returns \<open>W\<close>; and for every conserved state \<open>U\<close>
  with \<open>d > 0\<close> whose derived pressure is at least \<open>TINY_NUMBER\<close>, \<^verbatim>\<open>Prim1D_to_Cons1D\<close>
  applied to the result of \<^verbatim>\<open>Cons1D_to_Prim1D\<close> returns \<open>U\<close>: density,
  velocities or momenta, pressure or energy, transverse field and passive
  scalars all agree, whatever the output structures held before.
\<close>

theorem conversion_roundtrip:
  assumes "Gamma_1 cfg \<noteq> 0"
    and "length (r W) = NSCALARS cfg" and "length (s U) = NSCALARS cfg"
    and "length (s pU0) = NSCALARS cfg" and "length (r pW0) = NSCALARS cfg"
  shows "(0 < Prim1D.d W \<and> TINY_NUMBER cfg \<le> P W \<longrightarrow>
            Prim1D_agree cfg (Cons1D_to_Prim1D cfg (Prim1D_to_Cons1D cfg pU0 W Bx) pW0 Bx) W)
       \<and> (0 < Cons1D.d U \<and> TINY_NUMBER cfg \<le> derived_pressure cfg U Bx \<longrightarrow>
            Cons1D_agree cfg (Prim1D_to_Cons1D cfg pU0 (Cons1D_to_Prim1D cfg U pW0 Bx) Bx) U)"
  using assms by (simp add: prim_roundtrip cons_roundtrip)


lemma sample_lengths:
  "length (r W_moving) = NSCALARS cfg_adiabatic_mhd"
  "length (s U_moving) = NSCALARS cfg_adiabatic_mhd"
  "length (r W_below_floor) = NSCALARS cfg_adiabatic_mhd"
  "length (s U_below_floor) = NSCALARS cfg_adiabatic_mhd"
  by (simp_all add: W_moving_def U_moving_def W_below_floor_def U_below_floor_def
      cfg_adiabatic_mhd_def)

text \<open>Both round trips at a moving, magnetised state well above the floor.\<close>

theorem conversion_roundtrip_witness:
  "Gamma_1 cfg_adiabatic_mhd \<noteq> 0
   \<and> 0 < Prim1D.d W_moving \<and> TINY_NUMBER cfg_adiabatic_mhd \<le> P W_moving
   \<and> Prim1D_agree cfg_adiabatic_mhd
        (Cons1D_to_Prim1D cfg_adiabatic_mhd
           (Prim1D_to_Cons1D cfg_adiabatic_mhd U_below_floor W_moving 1) W_below_floor 1)
        W_moving
   \<and> 0 < Cons1D.d U_moving
   \<and> TINY_NUMBER cfg_adiabatic_mhd \<le> derived_pressure cfg_adiabatic_mhd U_moving 1
   \<and> Cons1D_agree cfg_adiabatic_mhd
        (Prim1D_to_Cons1D cfg_adiabatic_mhd U_below_floor
           (Cons1D_to_Prim1D cfg_adiabatic_mhd U_moving W_below_floor 1) 1)
        U_moving"
proof -
  have G: "Gamma_1 cfg_adiabatic_mhd \<noteq> 0"
    by (simp add: cfg_adiabatic_mhd_def)
  have W: "0 < Prim1D.d W_moving \<and> TINY_NUMBER cfg_adiabatic_mhd \<le> P W_moving"
    by (simp add: W_moving_def cfg_adiabatic_mhd_def)
  have U: "0 < Cons1D.d U_moving
      \<and> TINY_NUMBER cfg_adiabatic_mhd \<le> derived_pressure cfg_adiabatic_mhd U_moving 1"
    by (simp add: U_moving_def cfg_adiabatic_mhd_def derived_pressure_def)
  show ?thesis
    using G W U
      conversion_roundtrip[OF G sample_lengths(1) sample_lengths(2) sample_lengths(4)
        sample_lengths(3), of 1]
    by simp
qed

text \<open>
  Claim C4 as it is worded fails for a positive pressure below the floor: with
  \<open>TINY_NUMBER = 10\<^sup>-\<^sup>2\<^sup>0\<close> and \<open>P = 10\<^sup>-\<^sup>2\<^sup>1\<close>, the round trip from the primitive state
  returns the pressure \<open>10\<^sup>-\<^sup>2\<^sup>0\<close>, and the round trip from the conserved state of
  derived pressure \<open>10\<^sup>-\<^sup>2\<^sup>1\<close> returns an energy that belongs to the pressure
  \<open>10\<^sup>-\<^sup>2\<^sup>0\<close>.
\<close>

theorem conversion_roundtrip_counterexample:
  "0 < Prim1D.d W_below_floor \<and> 0 < P W_below_floor
   \<and> P (Cons1D_to_Prim1D cfg_adiabatic_mhd
          (Prim1D_to_Cons1D cfg_adiabatic_mhd U_moving W_below_floor 0) W_moving 0)
       \<noteq> P W_below_floor
   \<and> 0 < Cons1D.d U_below_floor
   \<and> 0 < derived_pressure cfg_adiabatic_mhd U_below_floor 0
   \<and> E (Prim1D_to_Cons1D cfg_adiabatic_mhd U_moving
          (Cons1D_to_Prim1D cfg_adiabatic_mhd U_below_floor W_moving 0) 0)
       \<noteq> E U_below_floor"
proof -
  have cfg: "\<not> ISOTHERMAL cfg_adiabatic_mhd" "MHD cfg_adiabatic_mhd"
    "Gamma_1 cfg_adiabatic_mhd = 1" "TINY_NUMBER cfg_adiabatic_mhd = 1 / 10 ^ 20"
    by (simp_all add: cfg_adiabatic_mhd_def)
  have Wf: "Prim1D.d W_below_floor = 1" "Vx W_below_floor = 0" "Vy W_below_floor = 0"
    "Vz W_below_floor = 0" "P W_below_floor = 1 / 10 ^ 21" "Prim1D.By W_below_floor = 0"
    "Prim1D.Bz W_below_floor = 0"
    by (simp_all add: W_below_floor_def)
  have Uf: "Cons1D.d U_below_floor = 1" "Mx U_below_floor = 0" "My U_below_floor = 0"
    "Mz U_below_floor = 0" "E U_below_floor = 1 / 10 ^ 21" "Cons1D.By U_below_floor = 0"
    "Cons1D.Bz U_below_floor = 0"
    by (simp_all add: U_below_floor_def)
  let ?U = "Prim1D_to_Cons1D cfg_adiabatic_mhd U_moving W_below_floor 0"
  let ?W = "Cons1D_to_Prim1D cfg_adiabatic_mhd U_below_floor W_moving 0"
  note U = Prim1D_to_Cons1D_members[OF sample_lengths(2) sample_lengths(3), of 0]
  have lenU: "length (s ?U) = NSCALARS cfg_adiabatic_mhd"
    by (simp add: U(8) sample_lengths)
  have dU: "0 < Cons1D.d ?U"
    by (simp add: U(1) Wf)
  have pU: "derived_pressure cfg_adiabatic_mhd ?U 0 = 1 / 10 ^ 21"
    by (simp add: derived_pressure_def U(1-4) U(5)[OF cfg(1)] U(6)[OF cfg(2)] U(7)[OF cfg(2)]
        cfg Wf)
  have P1: "P (Cons1D_to_Prim1D cfg_adiabatic_mhd ?U W_moving 0) = 1 / 10 ^ 20"
    by (simp add: Cons1D_to_Prim1D_members(5)[OF lenU sample_lengths(1) cfg(1) dU] pU cfg(4)
        MAX_macro_def)
  note W = Cons1D_to_Prim1D_members[OF sample_lengths(4) sample_lengths(1), of 0]
  have lenW: "length (r ?W) = NSCALARS cfg_adiabatic_mhd"
    by (simp add: W(8) sample_lengths)
  have dU0: "0 < Cons1D.d U_below_floor"
    by (simp add: Uf)
  have p0: "derived_pressure cfg_adiabatic_mhd U_below_floor 0 = 1 / 10 ^ 21"
    by (simp add: derived_pressure_def cfg Uf)
  have PW: "P ?W = 1 / 10 ^ 20"
    by (simp add: W(5)[OF cfg(1) dU0] p0 cfg(4) MAX_macro_def)
  have E1: "E (Prim1D_to_Cons1D cfg_adiabatic_mhd U_moving ?W 0) = 1 / 10 ^ 20"
    by (simp add: Prim1D_to_Cons1D_members(5)[OF sample_lengths(2) lenW cfg(1)] PW W(1-4)
        W(6)[OF cfg(2)] W(7)[OF cfg(2)] cfg Uf)
  show ?thesis
    by (simp add: P1 E1 p0 Wf Uf)
qed

section \<open>Properties of integrate_3d_vl.c\<close>

subsection \<open>Loops\<close>

text \<open>
  An observation \<open>Q\<close> of the state that only the iteration \<open>a\<close> changes, and
  changes by \<open>g\<close>, is changed by \<open>g\<close> once if \<open>a\<close> lies in the range of the loop and
  not at all otherwise.
\<close>

lemma for_loop_obs:
  assumes "\<And>i st. lo \<le> i \<Longrightarrow> i \<le> hi \<Longrightarrow> Q (body i st) = (if i = a then g (Q st) else Q st)"
  shows "Q (for_loop lo hi body st) = (if lo \<le> a \<and> a \<le> hi then g (Q st) else Q st)"
  using assms
proof (induction lo hi body st rule: for_loop.induct)
  case (1 lo hi body st)
  show ?case
  proof (cases "lo \<le> hi")
    case False
    then show ?thesis by (auto simp: for_loop.simps)
  next
    case True
    have step: "Q (body lo st) = (if lo = a then g (Q st) else Q st)"
      using "1.prems"[of lo st] True by simp
    have rest: "Q (for_loop (lo + 1) hi body (body lo st))
        = (if lo + 1 \<le> a \<and> a \<le> hi then g (Q (body lo st)) else Q (body lo st))"
      using "1.IH"[OF True] "1.prems" by simp
    have "for_loop lo hi body st = for_loop (lo + 1) hi body (body lo st)"
      using True by (subst for_loop.simps) simp
    then show ?thesis
      using step rest True by auto
  qed
qed

lemma for_loop_frame:
  assumes "\<And>i st. lo \<le> i \<Longrightarrow> i \<le> hi \<Longrightarrow> Q (body i st) = Q st"
  shows "Q (for_loop lo hi body st) = Q st"
  using for_loop_obs[where Q = Q and g = "\<lambda>q. q" and a = lo and lo = lo and hi = hi and body = body and st = st] assms
  by simp

subsection \<open>The face fields after Step 11\<close>

lemma upd3_apply: "upd3 a k j i v k' j' i' = (if k' = k \<and> j' = j \<and> i' = i then v else a k' j' i')"
  by (simp add: upd3_def)

lemma ct_B1i_simps:
  "B1i (ct_B1i e q2 q3 k j i g) k' j' i'
     = (if k' = k \<and> j' = j \<and> i' = i then B1i g k' j' i' + dB1 e q2 q3 k' j' i' else B1i g k' j' i')"
  "B2i (ct_B1i e q2 q3 k j i g) = B2i g"
  "B3i (ct_B1i e q2 q3 k j i g) = B3i g"
  by (simp_all add: ct_B1i_def upd3_apply dB1_def)

lemma ct_B2i_simps:
  "B2i (ct_B2i e q1 q3 k j i g) k' j' i'
     = (if k' = k \<and> j' = j \<and> i' = i then B2i g k' j' i' + dB2 e q1 q3 k' j' i' else B2i g k' j' i')"
  "B1i (ct_B2i e q1 q3 k j i g) = B1i g"
  "B3i (ct_B2i e q1 q3 k j i g) = B3i g"
  by (simp_all add: ct_B2i_def upd3_apply dB2_def)

lemma ct_B3i_simps:
  "B3i (ct_B3i e q1 q2 k j i g) k' j' i'
     = (if k' = k \<and> j' = j \<and> i' = i then B3i g k' j' i' + dB3 e q1 q2 k' j' i' else B3i g k' j' i')"
  "B1i (ct_B3i e q1 q2 k j i g) = B1i g"
  "B2i (ct_B3i e q1 q2 k j i g) = B2i g"
  by (simp_all add: ct_B3i_def upd3_apply dB3_def)

lemma ct_geometry:
  "dx1 (ct_B1i e q2 q3 k j i g) = dx1 g" "dx2 (ct_B1i e q2 q3 k j i g) = dx2 g"
  "dx3 (ct_B1i e q2 q3 k j i g) = dx3 g"
  "dx1 (ct_B2i e q1 q3 k j i g) = dx1 g" "dx2 (ct_B2i e q1 q3 k j i g) = dx2 g"
  "dx3 (ct_B2i e q1 q3 k j i g) = dx3 g"
  "dx1 (ct_B3i e q1 q2 k j i g) = dx1 g" "dx2 (ct_B3i e q1 q2 k j i g) = dx2 g"
  "dx3 (ct_B3i e q1 q2 k j i g) = dx3 g"
  by (simp_all add: ct_B1i_def ct_B2i_def ct_B3i_def)

text \<open>\<^verbatim>\<open>B1i\<close> through the loop nest, from the innermost loop outwards.\<close>

lemma B1i_cells:
  "B1i (for_loop lo hi (\<lambda>i g. ct_B3i e q1 q2 k j i (ct_B2i e q1 q3 k j i (ct_B1i e q2 q3 k j i g))) g) k' j' i'
   = (if k' = k \<and> j' = j \<and> lo \<le> i' \<and> i' \<le> hi then B1i g k' j' i' + dB1 e q2 q3 k' j' i' else B1i g k' j' i')"
proof -
  have "B1i (for_loop lo hi (\<lambda>i g. ct_B3i e q1 q2 k j i (ct_B2i e q1 q3 k j i (ct_B1i e q2 q3 k j i g))) g) k' j' i'
      = (if lo \<le> i' \<and> i' \<le> hi
         then (\<lambda>q. if k' = k \<and> j' = j then q + dB1 e q2 q3 k' j' i' else q) (B1i g k' j' i')
         else B1i g k' j' i')"
    by (rule for_loop_obs[where Q = "\<lambda>g. B1i g k' j' i'"])
       (simp add: ct_B1i_simps ct_B2i_simps ct_B3i_simps)
  then show ?thesis by simp
qed


lemma B1i_rows:
  assumes "ihi < itop"
  shows "B1i (for_loop lo hi (\<lambda>j g. ct_B1i e q2 q3 k j itop
          (for_loop ilo ihi (\<lambda>i g. ct_B3i e q1 q2 k j i (ct_B2i e q1 q3 k j i (ct_B1i e q2 q3 k j i g))) g)) g) k' j' i'
   = (if k' = k \<and> lo \<le> j' \<and> j' \<le> hi \<and> (ilo \<le> i' \<and> i' \<le> ihi \<or> i' = itop)
      then B1i g k' j' i' + dB1 e q2 q3 k' j' i'
      else B1i g k' j' i')"
proof -
  let ?G = "\<lambda>q. if k' = k \<and> (ilo \<le> i' \<and> i' \<le> ihi \<or> i' = itop)
      then q + dB1 e q2 q3 k' j' i' else q"
  have "B1i (for_loop lo hi (\<lambda>j g. ct_B1i e q2 q3 k j itop
          (for_loop ilo ihi (\<lambda>i g. ct_B3i e q1 q2 k j i (ct_B2i e q1 q3 k j i (ct_B1i e q2 q3 k j i g))) g)) g) k' j' i'
      = (if lo \<le> j' \<and> j' \<le> hi then ?G (B1i g k' j' i') else B1i g k' j' i')"
    by (rule for_loop_obs[where Q = "\<lambda>g. B1i g k' j' i'"])
       (use assms in \<open>auto simp: ct_B1i_simps B1i_cells\<close>)
  then show ?thesis by auto
qed

lemma B1i_B2_row:
  "B1i (for_loop lo hi (\<lambda>i g. ct_B2i e q1 q3 k j i g) g) = B1i g"
  by (rule for_loop_frame) (simp add: ct_B2i_simps)

lemma B1i_B3_plane:
  "B1i (for_loop lo hi (\<lambda>j g. for_loop ilo ihi (\<lambda>i g. ct_B3i e q1 q2 k j i g) g) g) = B1i g"
  by (rule for_loop_frame, rule for_loop_frame) (simp add: ct_B3i_simps)


lemma B1i_planes:
  assumes "ihi < itop"
  shows "B1i (for_loop lo hi (\<lambda>k g.
           for_loop ilo ihi (\<lambda>i g. ct_B2i e q1 q3 k jtop i g)
             (for_loop jlo jhi (\<lambda>j g. ct_B1i e q2 q3 k j itop
                (for_loop ilo ihi (\<lambda>i g. ct_B3i e q1 q2 k j i (ct_B2i e q1 q3 k j i (ct_B1i e q2 q3 k j i g))) g)) g)) g) k' j' i'
   = (if lo \<le> k' \<and> k' \<le> hi \<and> jlo \<le> j' \<and> j' \<le> jhi \<and> (ilo \<le> i' \<and> i' \<le> ihi \<or> i' = itop)
      then B1i g k' j' i' + dB1 e q2 q3 k' j' i'
      else B1i g k' j' i')"
proof -
  let ?G = "\<lambda>q. if jlo \<le> j' \<and> j' \<le> jhi \<and> (ilo \<le> i' \<and> i' \<le> ihi \<or> i' = itop)
      then q + dB1 e q2 q3 k' j' i' else q"
  have "B1i (for_loop lo hi (\<lambda>k g.
           for_loop ilo ihi (\<lambda>i g. ct_B2i e q1 q3 k jtop i g)
             (for_loop jlo jhi (\<lambda>j g. ct_B1i e q2 q3 k j itop
                (for_loop ilo ihi (\<lambda>i g. ct_B3i e q1 q2 k j i (ct_B2i e q1 q3 k j i (ct_B1i e q2 q3 k j i g))) g)) g)) g) k' j' i'
      = (if lo \<le> k' \<and> k' \<le> hi then ?G (B1i g k' j' i') else B1i g k' j' i')"
    by (rule for_loop_obs[where Q = "\<lambda>g. B1i g k' j' i'"])
       (use assms in \<open>auto simp: B1i_B2_row B1i_rows\<close>)
  then show ?thesis by auto
qed

lemma step11_B1i:
  "B1i (step11_CT cfg e g) k j i
   = (if advanced_B1i cfg g k j i
      then B1i g k j i + dB1 e (dtodx2 g) (dtodx3 g) k j i
      else B1i g k j i)"
  unfolding step11_CT_def Let_def advanced_B1i_def
  by (simp add: B1i_B3_plane B1i_planes)


text \<open>\<^verbatim>\<open>B2i\<close> through the loop nest.\<close>

lemma B2i_cells:
  "B2i (for_loop lo hi (\<lambda>i g. ct_B3i e q1 q2 k j i (ct_B2i e q1 q3 k j i (ct_B1i e q2 q3 k j i g))) g) k' j' i'
   = (if k' = k \<and> j' = j \<and> lo \<le> i' \<and> i' \<le> hi then B2i g k' j' i' + dB2 e q1 q3 k' j' i' else B2i g k' j' i')"
proof -
  have "B2i (for_loop lo hi (\<lambda>i g. ct_B3i e q1 q2 k j i (ct_B2i e q1 q3 k j i (ct_B1i e q2 q3 k j i g))) g) k' j' i'
      = (if lo \<le> i' \<and> i' \<le> hi
         then (\<lambda>q. if k' = k \<and> j' = j then q + dB2 e q1 q3 k' j' i' else q) (B2i g k' j' i')
         else B2i g k' j' i')"
    by (rule for_loop_obs[where Q = "\<lambda>g. B2i g k' j' i'"])
       (simp add: ct_B1i_simps ct_B2i_simps ct_B3i_simps)
  then show ?thesis by simp
qed

lemma B2i_rows:
  "B2i (for_loop jlo jhi (\<lambda>j g. ct_B1i e q2 q3 k j itop
                (for_loop ilo ihi (\<lambda>i g. ct_B3i e q1 q2 k j i (ct_B2i e q1 q3 k j i (ct_B1i e q2 q3 k j i g))) g)) g) k' j' i'
   = (if k' = k \<and> jlo \<le> j' \<and> j' \<le> jhi \<and> ilo \<le> i' \<and> i' \<le> ihi
      then B2i g k' j' i' + dB2 e q1 q3 k' j' i'
      else B2i g k' j' i')"
proof -
  let ?G = "\<lambda>q. if k' = k \<and> ilo \<le> i' \<and> i' \<le> ihi then q + dB2 e q1 q3 k' j' i' else q"
  have "B2i (for_loop jlo jhi (\<lambda>j g. ct_B1i e q2 q3 k j itop
                (for_loop ilo ihi (\<lambda>i g. ct_B3i e q1 q2 k j i (ct_B2i e q1 q3 k j i (ct_B1i e q2 q3 k j i g))) g)) g) k' j' i'
      = (if jlo \<le> j' \<and> j' \<le> jhi then ?G (B2i g k' j' i') else B2i g k' j' i')"
    by (rule for_loop_obs[where Q = "\<lambda>g. B2i g k' j' i'"])
       (auto simp: ct_B1i_simps B2i_cells)
  then show ?thesis by auto
qed

lemma B2i_B2_row:
  "B2i (for_loop lo hi (\<lambda>i g. ct_B2i e q1 q3 k j i g) g) k' j' i'
   = (if k' = k \<and> j' = j \<and> lo \<le> i' \<and> i' \<le> hi then B2i g k' j' i' + dB2 e q1 q3 k' j' i' else B2i g k' j' i')"
proof -
  have "B2i (for_loop lo hi (\<lambda>i g. ct_B2i e q1 q3 k j i g) g) k' j' i'
      = (if lo \<le> i' \<and> i' \<le> hi
         then (\<lambda>q. if k' = k \<and> j' = j then q + dB2 e q1 q3 k' j' i' else q) (B2i g k' j' i')
         else B2i g k' j' i')"
    by (rule for_loop_obs[where Q = "\<lambda>g. B2i g k' j' i'"]) (simp add: ct_B2i_simps)
  then show ?thesis by simp
qed

lemma B2i_planes:
  assumes "jhi < jtop"
  shows "B2i (for_loop lo hi (\<lambda>k g.
           for_loop ilo ihi (\<lambda>i g. ct_B2i e q1 q3 k jtop i g)
             (for_loop jlo jhi (\<lambda>j g. ct_B1i e q2 q3 k j itop
                (for_loop ilo ihi (\<lambda>i g. ct_B3i e q1 q2 k j i (ct_B2i e q1 q3 k j i (ct_B1i e q2 q3 k j i g))) g)) g)) g) k' j' i'
   = (if lo \<le> k' \<and> k' \<le> hi \<and> (jlo \<le> j' \<and> j' \<le> jhi \<or> j' = jtop) \<and> ilo \<le> i' \<and> i' \<le> ihi
      then B2i g k' j' i' + dB2 e q1 q3 k' j' i'
      else B2i g k' j' i')"
proof -
  let ?G = "\<lambda>q. if (jlo \<le> j' \<and> j' \<le> jhi \<or> j' = jtop) \<and> ilo \<le> i' \<and> i' \<le> ihi
      then q + dB2 e q1 q3 k' j' i' else q"
  have "B2i (for_loop lo hi (\<lambda>k g.
           for_loop ilo ihi (\<lambda>i g. ct_B2i e q1 q3 k jtop i g)
             (for_loop jlo jhi (\<lambda>j g. ct_B1i e q2 q3 k j itop
                (for_loop ilo ihi (\<lambda>i g. ct_B3i e q1 q2 k j i (ct_B2i e q1 q3 k j i (ct_B1i e q2 q3 k j i g))) g)) g)) g) k' j' i'
      = (if lo \<le> k' \<and> k' \<le> hi then ?G (B2i g k' j' i') else B2i g k' j' i')"
    by (rule for_loop_obs[where Q = "\<lambda>g. B2i g k' j' i'"])
       (use assms in \<open>auto simp: B2i_B2_row B2i_rows\<close>)
  then show ?thesis by auto
qed

lemma B2i_B3_plane:
  "B2i (for_loop lo hi (\<lambda>j g. for_loop ilo ihi (\<lambda>i g. ct_B3i e q1 q2 k j i g) g) g) = B2i g"
  by (rule for_loop_frame, rule for_loop_frame) (simp add: ct_B3i_simps)

lemma step11_B2i:
  "B2i (step11_CT cfg e g) k j i
   = (if advanced_B2i cfg g k j i
      then B2i g k j i + dB2 e (dtodx1 g) (dtodx3 g) k j i
      else B2i g k j i)"
  unfolding step11_CT_def Let_def advanced_B2i_def
  by (simp add: B2i_B3_plane B2i_planes)

text \<open>\<^verbatim>\<open>B3i\<close> through the loop nest.\<close>

lemma B3i_cells:
  "B3i (for_loop lo hi (\<lambda>i g. ct_B3i e q1 q2 k j i (ct_B2i e q1 q3 k j i (ct_B1i e q2 q3 k j i g))) g) k' j' i'
   = (if k' = k \<and> j' = j \<and> lo \<le> i' \<and> i' \<le> hi then B3i g k' j' i' + dB3 e q1 q2 k' j' i' else B3i g k' j' i')"
proof -
  have "B3i (for_loop lo hi (\<lambda>i g. ct_B3i e q1 q2 k j i (ct_B2i e q1 q3 k j i (ct_B1i e q2 q3 k j i g))) g) k' j' i'
      = (if lo \<le> i' \<and> i' \<le> hi
         then (\<lambda>q. if k' = k \<and> j' = j then q + dB3 e q1 q2 k' j' i' else q) (B3i g k' j' i')
         else B3i g k' j' i')"
    by (rule for_loop_obs[where Q = "\<lambda>g. B3i g k' j' i'"])
       (simp add: ct_B1i_simps ct_B2i_simps ct_B3i_simps)
  then show ?thesis by simp
qed

lemma B3i_rows:
  "B3i (for_loop jlo jhi (\<lambda>j g. ct_B1i e q2 q3 k j itop
                (for_loop ilo ihi (\<lambda>i g. ct_B3i e q1 q2 k j i (ct_B2i e q1 q3 k j i (ct_B1i e q2 q3 k j i g))) g)) g) k' j' i'
   = (if k' = k \<and> jlo \<le> j' \<and> j' \<le> jhi \<and> ilo \<le> i' \<and> i' \<le> ihi
      then B3i g k' j' i' + dB3 e q1 q2 k' j' i'
      else B3i g k' j' i')"
proof -
  let ?G = "\<lambda>q. if k' = k \<and> ilo \<le> i' \<and> i' \<le> ihi then q + dB3 e q1 q2 k' j' i' else q"
  have "B3i (for_loop jlo jhi (\<lambda>j g. ct_B1i e q2 q3 k j itop
                (for_loop ilo ihi (\<lambda>i g. ct_B3i e q1 q2 k j i (ct_B2i e q1 q3 k j i (ct_B1i e q2 q3 k j i g))) g)) g) k' j' i'
      = (if jlo \<le> j' \<and> j' \<le> jhi then ?G (B3i g k' j' i') else B3i g k' j' i')"
    by (rule for_loop_obs[where Q = "\<lambda>g. B3i g k' j' i'"])
       (auto simp: ct_B1i_simps B3i_cells)
  then show ?thesis by auto
qed

lemma B3i_B2_row:
  "B3i (for_loop lo hi (\<lambda>i g. ct_B2i e q1 q3 k j i g) g) = B3i g"
  by (rule for_loop_frame) (simp add: ct_B2i_simps)

lemma B3i_planes:
  "B3i (for_loop lo hi (\<lambda>k g.
           for_loop ilo ihi (\<lambda>i g. ct_B2i e q1 q3 k jtop i g)
             (for_loop jlo jhi (\<lambda>j g. ct_B1i e q2 q3 k j itop
                (for_loop ilo ihi (\<lambda>i g. ct_B3i e q1 q2 k j i (ct_B2i e q1 q3 k j i (ct_B1i e q2 q3 k j i g))) g)) g)) g) k' j' i'
   = (if lo \<le> k' \<and> k' \<le> hi \<and> jlo \<le> j' \<and> j' \<le> jhi \<and> ilo \<le> i' \<and> i' \<le> ihi
      then B3i g k' j' i' + dB3 e q1 q2 k' j' i'
      else B3i g k' j' i')"
proof -
  let ?G = "\<lambda>q. if jlo \<le> j' \<and> j' \<le> jhi \<and> ilo \<le> i' \<and> i' \<le> ihi
      then q + dB3 e q1 q2 k' j' i' else q"
  have "B3i (for_loop lo hi (\<lambda>k g.
           for_loop ilo ihi (\<lambda>i g. ct_B2i e q1 q3 k jtop i g)
             (for_loop jlo jhi (\<lambda>j g. ct_B1i e q2 q3 k j itop
                (for_loop ilo ihi (\<lambda>i g. ct_B3i e q1 q2 k j i (ct_B2i e q1 q3 k j i (ct_B1i e q2 q3 k j i g))) g)) g)) g) k' j' i'
      = (if lo \<le> k' \<and> k' \<le> hi then ?G (B3i g k' j' i') else B3i g k' j' i')"
    by (rule for_loop_obs[where Q = "\<lambda>g. B3i g k' j' i'"])
       (auto simp: B3i_B2_row B3i_rows)
  then show ?thesis by auto
qed

lemma B3i_B3_row:
  "B3i (for_loop lo hi (\<lambda>i g. ct_B3i e q1 q2 k j i g) g) k' j' i'
   = (if k' = k \<and> j' = j \<and> lo \<le> i' \<and> i' \<le> hi then B3i g k' j' i' + dB3 e q1 q2 k' j' i' else B3i g k' j' i')"
proof -
  have "B3i (for_loop lo hi (\<lambda>i g. ct_B3i e q1 q2 k j i g) g) k' j' i'
      = (if lo \<le> i' \<and> i' \<le> hi
         then (\<lambda>q. if k' = k \<and> j' = j then q + dB3 e q1 q2 k' j' i' else q) (B3i g k' j' i')
         else B3i g k' j' i')"
    by (rule for_loop_obs[where Q = "\<lambda>g. B3i g k' j' i'"]) (simp add: ct_B3i_simps)
  then show ?thesis by simp
qed

lemma B3i_B3_plane:
  "B3i (for_loop jlo jhi (\<lambda>j g. for_loop ilo ihi (\<lambda>i g. ct_B3i e q1 q2 k j i g) g) g) k' j' i'
   = (if k' = k \<and> jlo \<le> j' \<and> j' \<le> jhi \<and> ilo \<le> i' \<and> i' \<le> ihi
      then B3i g k' j' i' + dB3 e q1 q2 k' j' i'
      else B3i g k' j' i')"
proof -
  let ?G = "\<lambda>q. if k' = k \<and> ilo \<le> i' \<and> i' \<le> ihi then q + dB3 e q1 q2 k' j' i' else q"
  have "B3i (for_loop jlo jhi (\<lambda>j g. for_loop ilo ihi (\<lambda>i g. ct_B3i e q1 q2 k j i g) g) g) k' j' i'
      = (if jlo \<le> j' \<and> j' \<le> jhi then ?G (B3i g k' j' i') else B3i g k' j' i')"
    by (rule for_loop_obs[where Q = "\<lambda>g. B3i g k' j' i'"]) (auto simp: B3i_B3_row)
  then show ?thesis by auto
qed

lemma step11_B3i:
  "B3i (step11_CT cfg e g) k j i
   = (if advanced_B3i cfg g k j i
      then B3i g k j i + dB3 e (dtodx1 g) (dtodx2 g) k j i
      else B3i g k j i)"
  unfolding step11_CT_def Let_def advanced_B3i_def
  by (auto simp: B3i_B3_plane B3i_planes)

text \<open>The cell sizes are not touched.\<close>

lemma for_loop_dx1:
  fixes body :: "int \<Rightarrow> Grid \<Rightarrow> Grid"
  assumes "\<And>i st. dx1 (body i st) = dx1 st"
  shows "dx1 (for_loop lo hi body st) = dx1 st"
  by (rule for_loop_frame) (rule assms)

lemma for_loop_dx2:
  fixes body :: "int \<Rightarrow> Grid \<Rightarrow> Grid"
  assumes "\<And>i st. dx2 (body i st) = dx2 st"
  shows "dx2 (for_loop lo hi body st) = dx2 st"
  by (rule for_loop_frame) (rule assms)

lemma for_loop_dx3:
  fixes body :: "int \<Rightarrow> Grid \<Rightarrow> Grid"
  assumes "\<And>i st. dx3 (body i st) = dx3 st"
  shows "dx3 (for_loop lo hi body st) = dx3 st"
  by (rule for_loop_frame) (rule assms)

lemma step11_geometry:
  "dx1 (step11_CT cfg e g) = dx1 g"
  "dx2 (step11_CT cfg e g) = dx2 g"
  "dx3 (step11_CT cfg e g) = dx3 g"
  unfolding step11_CT_def Let_def
  by (simp_all add: for_loop_dx1 for_loop_dx2 for_loop_dx3 ct_geometry)

subsection \<open>The discrete divergence\<close>

text \<open>
  Each corner EMF enters the increments of two faces of a cell with opposite
  signs, so that the divergence of the increments vanishes.
\<close>

lemma curl_div_cancel:
  fixes t a b c p q r :: real
  shows "(t / c * p - t / b * q) / a + (t / a * q - t / c * r) / b + (t / b * r - t / a * p) / c = 0"
  by (simp add: diff_divide_distrib ac_simps)

lemma ct_increments_cancel:
  fixes e :: emfs and g :: Grid
  shows "(dB1 e (dtodx2 g) (dtodx3 g) k j (i + 1) - dB1 e (dtodx2 g) (dtodx3 g) k j i) / dx1 g
       + (dB2 e (dtodx1 g) (dtodx3 g) k (j + 1) i - dB2 e (dtodx1 g) (dtodx3 g) k j i) / dx2 g
       + (dB3 e (dtodx1 g) (dtodx2 g) (k + 1) j i - dB3 e (dtodx1 g) (dtodx2 g) k j i) / dx3 g = 0"
proof -
  let ?E1 = "emf1 e (k + 1) (j + 1) i - emf1 e k (j + 1) i - emf1 e (k + 1) j i + emf1 e k j i"
  let ?E2 = "emf2 e (k + 1) j (i + 1) - emf2 e k j (i + 1) - emf2 e (k + 1) j i + emf2 e k j i"
  let ?E3 = "emf3 e k (j + 1) (i + 1) - emf3 e k j (i + 1) - emf3 e k (j + 1) i + emf3 e k j i"
  have 1: "dB1 e (dtodx2 g) (dtodx3 g) k j (i + 1) - dB1 e (dtodx2 g) (dtodx3 g) k j i
      = dt g / dx3 g * ?E2 - dt g / dx2 g * ?E3"
    by (simp add: dB1_def dtodx2_def dtodx3_def algebra_simps)
  have 2: "dB2 e (dtodx1 g) (dtodx3 g) k (j + 1) i - dB2 e (dtodx1 g) (dtodx3 g) k j i
      = dt g / dx1 g * ?E3 - dt g / dx3 g * ?E1"
    by (simp add: dB2_def dtodx1_def dtodx3_def algebra_simps)
  have 3: "dB3 e (dtodx1 g) (dtodx2 g) (k + 1) j i - dB3 e (dtodx1 g) (dtodx2 g) k j i
      = dt g / dx2 g * ?E1 - dt g / dx1 g * ?E2"
    by (simp add: dB3_def dtodx1_def dtodx2_def algebra_simps)
  show ?thesis
    unfolding 1 2 3 by (rule curl_div_cancel)
qed

text \<open>
  Claim C1. For every grid with positive cell sizes, for all corner EMFs, and for
  every cell \<open>(k, j, i)\<close> whose six bounding faces are all advanced by the
  constrained-transport update of Step 11, the discrete divergence
  \<^verbatim>\<open>(B1i[k][j][i+1]-B1i[k][j][i])/dx1 + (B2i[k][j+1][i]-B2i[k][j][i])/dx2 +
  (B3i[k+1][j][i]-B3i[k][j][i])/dx3\<close> after the update equals its value before the
  update; in particular a zero divergence on such a cell stays zero.
\<close>

theorem step11_preserves_divB:
  assumes "0 < dx1 g" and "0 < dx2 g" and "0 < dx3 g"
    and "six_faces_advanced cfg g k j i"
  shows "divB (step11_CT cfg e g) k j i = divB g k j i
       \<and> (divB g k j i = 0 \<longrightarrow> divB (step11_CT cfg e g) k j i = 0)"
proof -
  have faces: "advanced_B1i cfg g k j i" "advanced_B1i cfg g k j (i + 1)"
    "advanced_B2i cfg g k j i" "advanced_B2i cfg g k (j + 1) i"
    "advanced_B3i cfg g k j i" "advanced_B3i cfg g (k + 1) j i"
    using assms(4) by (simp_all add: six_faces_advanced_def)
  have "divB (step11_CT cfg e g) k j i
      = divB g k j i
        + ((dB1 e (dtodx2 g) (dtodx3 g) k j (i + 1) - dB1 e (dtodx2 g) (dtodx3 g) k j i) / dx1 g
         + (dB2 e (dtodx1 g) (dtodx3 g) k (j + 1) i - dB2 e (dtodx1 g) (dtodx3 g) k j i) / dx2 g
         + (dB3 e (dtodx1 g) (dtodx2 g) (k + 1) j i - dB3 e (dtodx1 g) (dtodx2 g) k j i) / dx3 g)"
    by (simp add: divB_def step11_B1i step11_B2i step11_B3i step11_geometry faces
        diff_divide_distrib add_divide_distrib)
  then have "divB (step11_CT cfg e g) k j i = divB g k j i"
    by (simp only: ct_increments_cancel add_0_right)
  then show ?thesis by simp
qed


text \<open>
  The cell \<open>(8, 8, 8)\<close> of the sample block lies at the upper end of the window in
  all three directions: its upper faces are the ones that the trailing statements
  and loops advance.
\<close>

theorem step11_preserves_divB_witness:
  "0 < dx1 grid_block \<and> 0 < dx2 grid_block \<and> 0 < dx3 grid_block
   \<and> six_faces_advanced cfg_adiabatic_mhd grid_block 8 8 8
   \<and> divB grid_block 8 8 8 = 0
   \<and> divB (step11_CT cfg_adiabatic_mhd emfs_sample grid_block) 8 8 8 = 0"
proof -
  have sizes: "0 < dx1 grid_block" "0 < dx2 grid_block" "0 < dx3 grid_block"
    by (simp_all add: grid_block_def)
  have faces: "six_faces_advanced cfg_adiabatic_mhd grid_block 8 8 8"
    by (simp add: six_faces_advanced_def advanced_B1i_def advanced_B2i_def advanced_B3i_def
        ib_def it_def jb_def jt_def kb_def kt_def il_def iu_def jl_def ju_def kl_def ku_def
        stencil_def cfg_adiabatic_mhd_def grid_block_def)
  have zero: "divB grid_block 8 8 8 = 0"
    by (simp add: divB_def grid_block_def)
  show ?thesis
    using sizes faces zero step11_preserves_divB[OF sizes faces, of emfs_sample] by simp
qed

subsection \<open>The corner EMFs\<close>

text \<open>
  Inside its loop window every corner holds the value computed by the loop body;
  outside, the array keeps its previous content.
\<close>

lemma integrate_emf1_corner_at:
  "emf1 (integrate_emf1_corner cfg g sc e) k j i
   = (if kl cfg g + 1 \<le> k \<and> k \<le> ku cfg g \<and> jl cfg g + 1 \<le> j \<and> j \<le> ju cfg g
         \<and> il cfg g + 1 \<le> i \<and> i \<le> iu cfg g - 1
      then emf1_corner sc k j i else emf1 e k j i)"
proof -
  have cells: "emf1 (for_loop lo hi (\<lambda>i e. e\<lparr>emf1 := upd3 (emf1 e) k' j' i (emf1_corner sc k' j' i)\<rparr>) e) k j i
      = (if k = k' \<and> j = j' \<and> lo \<le> i \<and> i \<le> hi then emf1_corner sc k j i else emf1 e k j i)"
    for lo hi k' j' and e :: emfs
  proof -
    have "emf1 (for_loop lo hi (\<lambda>i e. e\<lparr>emf1 := upd3 (emf1 e) k' j' i (emf1_corner sc k' j' i)\<rparr>) e) k j i
      = (if lo \<le> i \<and> i \<le> hi
         then (\<lambda>q. if k = k' \<and> j = j' then emf1_corner sc k j i else q) (emf1 e k j i)
         else emf1 e k j i)"
      by (rule for_loop_obs[where Q = "\<lambda>e. emf1 e k j i"]) (auto simp: upd3_apply)
    then show ?thesis by auto
  qed
  have rows: "emf1 (for_loop lo hi (\<lambda>j e. for_loop ilo ihi
          (\<lambda>i e. e\<lparr>emf1 := upd3 (emf1 e) k' j i (emf1_corner sc k' j i)\<rparr>) e) e) k j i
      = (if k = k' \<and> lo \<le> j \<and> j \<le> hi \<and> ilo \<le> i \<and> i \<le> ihi
         then emf1_corner sc k j i else emf1 e k j i)"
    for lo hi ilo ihi k' and e :: emfs
  proof -
    have "emf1 (for_loop lo hi (\<lambda>j e. for_loop ilo ihi
          (\<lambda>i e. e\<lparr>emf1 := upd3 (emf1 e) k' j i (emf1_corner sc k' j i)\<rparr>) e) e) k j i
      = (if lo \<le> j \<and> j \<le> hi
         then (\<lambda>q. if k = k' \<and> ilo \<le> i \<and> i \<le> ihi then emf1_corner sc k j i else q) (emf1 e k j i)
         else emf1 e k j i)"
      by (rule for_loop_obs[where Q = "\<lambda>e. emf1 e k j i"]) (auto simp: cells)
    then show ?thesis by auto
  qed
  have "emf1 (integrate_emf1_corner cfg g sc e) k j i
      = (if kl cfg g + 1 \<le> k \<and> k \<le> ku cfg g
         then (\<lambda>q. if jl cfg g + 1 \<le> j \<and> j \<le> ju cfg g \<and> il cfg g + 1 \<le> i \<and> i \<le> iu cfg g - 1
                    then emf1_corner sc k j i else q) (emf1 e k j i)
         else emf1 e k j i)"
    unfolding integrate_emf1_corner_def
    by (rule for_loop_obs[where Q = "\<lambda>e. emf1 e k j i"]) (auto simp: rows)
  then show ?thesis by auto
qed

lemma integrate_emf2_corner_at:
  "emf2 (integrate_emf2_corner cfg g sc e) k j i
   = (if kl cfg g + 1 \<le> k \<and> k \<le> ku cfg g \<and> jl cfg g + 1 \<le> j \<and> j \<le> ju cfg g - 1
         \<and> il cfg g + 1 \<le> i \<and> i \<le> iu cfg g
      then emf2_corner sc k j i else emf2 e k j i)"
proof -
  have cells: "emf2 (for_loop lo hi (\<lambda>i e. e\<lparr>emf2 := upd3 (emf2 e) k' j' i (emf2_corner sc k' j' i)\<rparr>) e) k j i
      = (if k = k' \<and> j = j' \<and> lo \<le> i \<and> i \<le> hi then emf2_corner sc k j i else emf2 e k j i)"
    for lo hi k' j' and e :: emfs
  proof -
    have "emf2 (for_loop lo hi (\<lambda>i e. e\<lparr>emf2 := upd3 (emf2 e) k' j' i (emf2_corner sc k' j' i)\<rparr>) e) k j i
      = (if lo \<le> i \<and> i \<le> hi
         then (\<lambda>q. if k = k' \<and> j = j' then emf2_corner sc k j i else q) (emf2 e k j i)
         else emf2 e k j i)"
      by (rule for_loop_obs[where Q = "\<lambda>e. emf2 e k j i"]) (auto simp: upd3_apply)
    then show ?thesis by auto
  qed
  have rows: "emf2 (for_loop lo hi (\<lambda>j e. for_loop ilo ihi
          (\<lambda>i e. e\<lparr>emf2 := upd3 (emf2 e) k' j i (emf2_corner sc k' j i)\<rparr>) e) e) k j i
      = (if k = k' \<and> lo \<le> j \<and> j \<le> hi \<and> ilo \<le> i \<and> i \<le> ihi
         then emf2_corner sc k j i else emf2 e k j i)"
    for lo hi ilo ihi k' and e :: emfs
  proof -
    have "emf2 (for_loop lo hi (\<lambda>j e. for_loop ilo ihi
          (\<lambda>i e. e\<lparr>emf2 := upd3 (emf2 e) k' j i (emf2_corner sc k' j i)\<rparr>) e) e) k j i
      = (if lo \<le> j \<and> j \<le> hi
         then (\<lambda>q. if k = k' \<and> ilo \<le> i \<and> i \<le> ihi then emf2_corner sc k j i else q) (emf2 e k j i)
         else emf2 e k j i)"
      by (rule for_loop_obs[where Q = "\<lambda>e. emf2 e k j i"]) (auto simp: cells)
    then show ?thesis by auto
  qed
  have "emf2 (integrate_emf2_corner cfg g sc e) k j i
      = (if kl cfg g + 1 \<le> k \<and> k \<le> ku cfg g
         then (\<lambda>q. if jl cfg g + 1 \<le> j \<and> j \<le> ju cfg g - 1 \<and> il cfg g + 1 \<le> i \<and> i \<le> iu cfg g
                    then emf2_corner sc k j i else q) (emf2 e k j i)
         else emf2 e k j i)"
    unfolding integrate_emf2_corner_def
    by (rule for_loop_obs[where Q = "\<lambda>e. emf2 e k j i"]) (auto simp: rows)
  then show ?thesis by auto
qed


lemma integrate_emf3_corner_at:
  "emf3 (integrate_emf3_corner cfg g sc e) k j i
   = (if kl cfg g + 1 \<le> k \<and> k \<le> ku cfg g - 1 \<and> jl cfg g + 1 \<le> j \<and> j \<le> ju cfg g
         \<and> il cfg g + 1 \<le> i \<and> i \<le> iu cfg g
      then emf3_corner sc k j i else emf3 e k j i)"
proof -
  have cells: "emf3 (for_loop lo hi (\<lambda>i e. e\<lparr>emf3 := upd3 (emf3 e) k' j' i (emf3_corner sc k' j' i)\<rparr>) e) k j i
      = (if k = k' \<and> j = j' \<and> lo \<le> i \<and> i \<le> hi then emf3_corner sc k j i else emf3 e k j i)"
    for lo hi k' j' and e :: emfs
  proof -
    have "emf3 (for_loop lo hi (\<lambda>i e. e\<lparr>emf3 := upd3 (emf3 e) k' j' i (emf3_corner sc k' j' i)\<rparr>) e) k j i
      = (if lo \<le> i \<and> i \<le> hi
         then (\<lambda>q. if k = k' \<and> j = j' then emf3_corner sc k j i else q) (emf3 e k j i)
         else emf3 e k j i)"
      by (rule for_loop_obs[where Q = "\<lambda>e. emf3 e k j i"]) (auto simp: upd3_apply)
    then show ?thesis by auto
  qed
  have rows: "emf3 (for_loop lo hi (\<lambda>j e. for_loop ilo ihi
          (\<lambda>i e. e\<lparr>emf3 := upd3 (emf3 e) k' j i (emf3_corner sc k' j i)\<rparr>) e) e) k j i
      = (if k = k' \<and> lo \<le> j \<and> j \<le> hi \<and> ilo \<le> i \<and> i \<le> ihi
         then emf3_corner sc k j i else emf3 e k j i)"
    for lo hi ilo ihi k' and e :: emfs
  proof -
    have "emf3 (for_loop lo hi (\<lambda>j e. for_loop ilo ihi
          (\<lambda>i e. e\<lparr>emf3 := upd3 (emf3 e) k' j i (emf3_corner sc k' j i)\<rparr>) e) e) k j i
      = (if lo \<le> j \<and> j \<le> hi
         then (\<lambda>q. if k = k' \<and> ilo \<le> i \<and> i \<le> ihi then emf3_corner sc k j i else q) (emf3 e k j i)
         else emf3 e k j i)"
      by (rule for_loop_obs[where Q = "\<lambda>e. emf3 e k j i"]) (auto simp: cells)
    then show ?thesis by auto
  qed
  have "emf3 (integrate_emf3_corner cfg g sc e) k j i
      = (if kl cfg g + 1 \<le> k \<and> k \<le> ku cfg g - 1
         then (\<lambda>q. if jl cfg g + 1 \<le> j \<and> j \<le> ju cfg g \<and> il cfg g + 1 \<le> i \<and> i \<le> iu cfg g
                    then emf3_corner sc k j i else q) (emf3 e k j i)
         else emf3 e k j i)"
    unfolding integrate_emf3_corner_def
    by (rule for_loop_obs[where Q = "\<lambda>e. emf3 e k j i"]) (auto simp: rows)
  then show ?thesis by auto
qed


text \<open>
  The correction terms against the selection rule. All four terms of \<^verbatim>\<open>emf1\<close> and
  of \<^verbatim>\<open>emf3\<close> and three terms of \<^verbatim>\<open>emf2\<close> follow it; \<^verbatim>\<open>de2_r1\<close> follows it for a
  non-zero mass flux and is off by half the jump of \<^verbatim>\<open>emf2_cc\<close> across the face
  when the flux is zero.
\<close>

lemma de1_terms:
  "de1_l3 sc k j i = upwind_choice (Cons1D.d (x2Flux sc (k - 1) j i))
     (Cons1D.Bz (x3Flux sc k (j - 1) i) - emf1_cc sc (k - 1) (j - 1) i)
     (Cons1D.Bz (x3Flux sc k j i) - emf1_cc sc (k - 1) j i)"
  "de1_r3 sc k j i = upwind_choice (Cons1D.d (x2Flux sc k j i))
     (Cons1D.Bz (x3Flux sc k (j - 1) i) - emf1_cc sc k (j - 1) i)
     (Cons1D.Bz (x3Flux sc k j i) - emf1_cc sc k j i)"
  "de1_l2 sc k j i = upwind_choice (Cons1D.d (x3Flux sc k (j - 1) i))
     (- Cons1D.By (x2Flux sc (k - 1) j i) - emf1_cc sc (k - 1) (j - 1) i)
     (- Cons1D.By (x2Flux sc k j i) - emf1_cc sc k (j - 1) i)"
  "de1_r2 sc k j i = upwind_choice (Cons1D.d (x3Flux sc k j i))
     (- Cons1D.By (x2Flux sc (k - 1) j i) - emf1_cc sc (k - 1) j i)
     (- Cons1D.By (x2Flux sc k j i) - emf1_cc sc k j i)"
  by (simp_all add: de1_l3_def de1_r3_def de1_l2_def de1_r2_def upwind_choice_def)

lemma de2_terms:
  "de2_l3 sc k j i = upwind_choice (Cons1D.d (x1Flux sc (k - 1) j i))
     (- Cons1D.By (x3Flux sc k j (i - 1)) - emf2_cc sc (k - 1) j (i - 1))
     (- Cons1D.By (x3Flux sc k j i) - emf2_cc sc (k - 1) j i)"
  "de2_r3 sc k j i = upwind_choice (Cons1D.d (x1Flux sc k j i))
     (- Cons1D.By (x3Flux sc k j (i - 1)) - emf2_cc sc k j (i - 1))
     (- Cons1D.By (x3Flux sc k j i) - emf2_cc sc k j i)"
  "de2_l1 sc k j i = upwind_choice (Cons1D.d (x3Flux sc k j (i - 1)))
     (Cons1D.Bz (x1Flux sc (k - 1) j i) - emf2_cc sc (k - 1) j (i - 1))
     (Cons1D.Bz (x1Flux sc k j i) - emf2_cc sc k j (i - 1))"
  by (simp_all add: de2_l3_def de2_r3_def de2_l1_def upwind_choice_def)

lemma de2_r1_term:
  "de2_r1 sc k j i = upwind_choice (Cons1D.d (x3Flux sc k j i))
     (Cons1D.Bz (x1Flux sc (k - 1) j i) - emf2_cc sc (k - 1) j i)
     (Cons1D.Bz (x1Flux sc k j i) - emf2_cc sc k j i)
   + (if Cons1D.d (x3Flux sc k j i) = 0 then (emf2_cc sc k j i - emf2_cc sc (k - 1) j i) / 2 else 0)"
  by (simp add: de2_r1_def upwind_choice_def add_divide_distrib diff_divide_distrib)

lemma de3_terms:
  "de3_l2 sc k j i = upwind_choice (Cons1D.d (x1Flux sc k (j - 1) i))
     (Cons1D.Bz (x2Flux sc k j (i - 1)) - emf3_cc sc k (j - 1) (i - 1))
     (Cons1D.Bz (x2Flux sc k j i) - emf3_cc sc k (j - 1) i)"
  "de3_r2 sc k j i = upwind_choice (Cons1D.d (x1Flux sc k j i))
     (Cons1D.Bz (x2Flux sc k j (i - 1)) - emf3_cc sc k j (i - 1))
     (Cons1D.Bz (x2Flux sc k j i) - emf3_cc sc k j i)"
  "de3_l1 sc k j i = upwind_choice (Cons1D.d (x2Flux sc k j (i - 1)))
     (- Cons1D.By (x1Flux sc k (j - 1) i) - emf3_cc sc k (j - 1) (i - 1))
     (- Cons1D.By (x1Flux sc k j i) - emf3_cc sc k j (i - 1))"
  "de3_r1 sc k j i = upwind_choice (Cons1D.d (x2Flux sc k j i))
     (- Cons1D.By (x1Flux sc k (j - 1) i) - emf3_cc sc k (j - 1) i)
     (- Cons1D.By (x1Flux sc k j i) - emf3_cc sc k j i)"
  by (simp_all add: de3_l2_def de3_r2_def de3_l1_def de3_r1_def upwind_choice_def)

lemma emf2_corner_shear: "emf2_corner sc_shear 1 1 1 = 5/8"
  by (simp add: emf2_corner_def de2_l1_def de2_r1_def de2_l3_def de2_r3_def sc_shear_def
      zero_flux_def)

text \<open>
  Claim C3 at the shear flow, corner \<open>(1, 1, 1)\<close>. The mass flux \<^verbatim>\<open>x3Flux[1][1][1].d\<close>
  is zero, so the claim asks for the arithmetic average of the upwind difference
  \<^verbatim>\<open>x1Flux[0][1][1].Bz - emf2_cc[0][1][1]\<close> and the downwind difference
  \<^verbatim>\<open>x1Flux[1][1][1].Bz - emf2_cc[1][1][1]\<close>, which is \<open>0\<close>. The code computes
  \<^verbatim>\<open>de2_r1 = 1/2\<close>, and \<^verbatim>\<open>integrate_emf2_corner\<close> stores \<^verbatim>\<open>emf2[1][1][1] = 5/8\<close>
  where the average would give \<open>1/2\<close>.
\<close>

theorem de2_r1_zero_flux_not_average:
  "Cons1D.d (x3Flux sc_shear 1 1 1) = 0
   \<and> de2_r1 sc_shear 1 1 1 = 1/2
   \<and> upwind_choice (Cons1D.d (x3Flux sc_shear 1 1 1))
        (Cons1D.Bz (x1Flux sc_shear (1 - 1) 1 1) - emf2_cc sc_shear (1 - 1) 1 1)
        (Cons1D.Bz (x1Flux sc_shear 1 1 1) - emf2_cc sc_shear 1 1 1) = 0
   \<and> emf2 (integrate_emf2_corner cfg_adiabatic_mhd grid_block sc_shear emfs_sample) 1 1 1 = 5/8"
proof -
  have "Cons1D.d (x3Flux sc_shear 1 1 1) = 0"
    by (simp add: sc_shear_def zero_flux_def)
  moreover have "de2_r1 sc_shear 1 1 1 = 1/2"
    by (simp add: de2_r1_def sc_shear_def zero_flux_def)
  moreover have "upwind_choice (Cons1D.d (x3Flux sc_shear 1 1 1))
        (Cons1D.Bz (x1Flux sc_shear (1 - 1) 1 1) - emf2_cc sc_shear (1 - 1) 1 1)
        (Cons1D.Bz (x1Flux sc_shear 1 1 1) - emf2_cc sc_shear 1 1 1) = 0"
    by (simp add: upwind_choice_def sc_shear_def zero_flux_def)
  moreover have "emf2 (integrate_emf2_corner cfg_adiabatic_mhd grid_block sc_shear emfs_sample) 1 1 1
      = emf2_corner sc_shear 1 1 1"
    by (simp add: integrate_emf2_corner_at il_def iu_def jl_def ju_def kl_def ku_def
        cfg_adiabatic_mhd_def grid_block_def)
  ultimately show ?thesis
    by (simp add: emf2_corner_shear)
qed

end
